theory Spec2Isabelle
  imports Main
begin

section \<open>The schema of the annotation store\<close>

text \<open>
  The tables of the first migration (\<^verbatim>\<open>CREATE TABLE public.profiles\<close> ...
  \<^verbatim>\<open>public.annotations\<close>), one record per table with one field per column.
  A \<^verbatim>\<open>UUID\<close> is an opaque identifier, a \<^verbatim>\<open>TIMESTAMPTZ\<close> a point in time, a nullable
  column an \<open>option\<close>. The column names carry a prefix for their table, since the same
  column name (\<^verbatim>\<open>id\<close>, \<^verbatim>\<open>project_id\<close>, \<^verbatim>\<open>created_by\<close>) occurs in several tables.
\<close>

type_synonym uuid = nat
type_synonym timestamptz = nat

datatype user_role = admin | annotator | reviewer

datatype annotation_type = bounding_box | polygon | keypoint | classification | mask

datatype project_status = active | completed | paused

datatype image_status = pending | in_progress | image_completed | reviewed | rejected

record profiles_row =
  pf_id :: uuid
  pf_email :: string
  pf_full_name :: "string option"
  pf_role :: user_role
  pf_created_at :: timestamptz
  pf_updated_at :: timestamptz

record projects_row =
  pj_id :: uuid
  pj_name :: string
  pj_description :: "string option"
  pj_created_by :: uuid
  pj_status :: project_status
  pj_created_at :: timestamptz
  pj_updated_at :: timestamptz

record project_members_row =
  pm_id :: uuid
  pm_project_id :: uuid
  pm_user_id :: uuid
  pm_role :: user_role
  pm_created_at :: timestamptz

record labels_row =
  lb_id :: uuid
  lb_project_id :: uuid
  lb_name :: string
  lb_color :: string
  lb_annotation_type :: annotation_type
  lb_created_at :: timestamptz

record images_row =
  im_id :: uuid
  im_project_id :: uuid
  im_filename :: string
  im_original_filename :: string
  im_file_path :: string
  im_file_size :: int
  im_width :: "int option"
  im_height :: "int option"
  im_status :: image_status
  im_assigned_to :: "uuid option"
  im_uploaded_by :: uuid
  im_created_at :: timestamptz
  im_updated_at :: timestamptz

record annotations_row =
  an_id :: uuid
  an_image_id :: uuid
  an_label_id :: uuid
  an_annotation_data :: string
  an_annotation_type :: annotation_type
  an_created_by :: uuid
  an_reviewed_by :: "uuid option"
  an_is_approved :: "bool option"
  an_notes :: "string option"
  an_created_at :: timestamptz
  an_updated_at :: timestamptz

text \<open>The stored state: the rows of the six tables of schema \<^verbatim>\<open>public\<close>.\<close>

record db =
  profiles :: "profiles_row list"
  projects :: "projects_row list"
  project_members :: "project_members_row list"
  labels :: "labels_row list"
  images :: "images_row list"
  annotations :: "annotations_row list"

datatype table_name =
  T_profiles | T_projects | T_project_members | T_labels | T_images | T_annotations

datatype row =
  Profile profiles_row
| Project projects_row
| Member project_members_row
| Label labels_row
| Image images_row
| Annotation annotations_row

fun table_of :: "row \<Rightarrow> table_name" where
  "table_of (Profile r) = T_profiles"
| "table_of (Project r) = T_projects"
| "table_of (Member r) = T_project_members"
| "table_of (Label r) = T_labels"
| "table_of (Image r) = T_images"
| "table_of (Annotation r) = T_annotations"

section \<open>Row-level security policies\<close>

text \<open>
  Every table has \<^verbatim>\<open>ENABLE ROW LEVEL SECURITY\<close>. A policy is declared for one table and
  for one command or for \<^verbatim>\<open>ALL\<close>, with an optional \<^verbatim>\<open>USING\<close> expression (on stored rows)
  and an optional \<^verbatim>\<open>WITH CHECK\<close> expression (on proposed rows). An expression is a
  predicate of: the stored state as a \<^verbatim>\<open>SECURITY DEFINER\<close> function reads it, the state
  as a sub-select of the calling user reads it (itself filtered by the policies), the
  caller \<^verbatim>\<open>auth.uid()\<close>, and the row it is evaluated on. The callers modelled are
  authenticated ones, whose \<^verbatim>\<open>auth.uid()\<close> is not null.
\<close>

datatype command = SELECT | INSERT | UPDATE | DELETE

datatype policy_for = FOR_ALL | FOR command

type_synonym qual = "db \<Rightarrow> db \<Rightarrow> uuid \<Rightarrow> row \<Rightarrow> bool"

record policy =
  pol_name :: string
  pol_table :: table_name
  pol_for :: policy_for
  pol_using :: "qual option"
  pol_with_check :: "qual option"

text \<open>\<^verbatim>\<open>public.has_role(_user_id, _role)\<close>: a \<^verbatim>\<open>SECURITY DEFINER\<close> function, so it reads
  the unfiltered \<^verbatim>\<open>profiles\<close> table.\<close>

definition has_role :: "db \<Rightarrow> uuid \<Rightarrow> user_role \<Rightarrow> bool" where
  "has_role d user_id r = list_ex (\<lambda>p. pf_id p = user_id \<and> pf_role p = r) (profiles d)"

subsection \<open>The policies of the first migration\<close>

definition Users_can_view_own_profile :: policy where
  "Users_can_view_own_profile = \<lparr>
     pol_name = ''Users can view own profile'', pol_table = T_profiles, pol_for = FOR SELECT,
     pol_using = Some (\<lambda>raw vis uid r. case r of Profile p \<Rightarrow> uid = pf_id p | _ \<Rightarrow> False),
     pol_with_check = None \<rparr>"

definition Users_can_update_own_profile :: policy where
  "Users_can_update_own_profile = \<lparr>
     pol_name = ''Users can update own profile'', pol_table = T_profiles, pol_for = FOR UPDATE,
     pol_using = Some (\<lambda>raw vis uid r. case r of Profile p \<Rightarrow> uid = pf_id p | _ \<Rightarrow> False),
     pol_with_check = None \<rparr>"

definition Admins_can_view_all_projects :: policy where
  "Admins_can_view_all_projects = \<lparr>
     pol_name = ''Admins can view all projects'', pol_table = T_projects, pol_for = FOR SELECT,
     pol_using = Some (\<lambda>raw vis uid r. has_role raw uid admin),
     pol_with_check = None \<rparr>"

definition Members_can_view_assigned_projects :: policy where
  "Members_can_view_assigned_projects = \<lparr>
     pol_name = ''Members can view assigned projects'', pol_table = T_projects,
     pol_for = FOR SELECT,
     pol_using = Some (\<lambda>raw vis uid r. case r of
        Project p \<Rightarrow>
          list_ex (\<lambda>m. pm_project_id m = pj_id p \<and> pm_user_id m = uid) (project_members vis)
      | _ \<Rightarrow> False),
     pol_with_check = None \<rparr>"

definition Admins_can_create_projects :: policy where
  "Admins_can_create_projects = \<lparr>
     pol_name = ''Admins can create projects'', pol_table = T_projects, pol_for = FOR INSERT,
     pol_using = None,
     pol_with_check = Some (\<lambda>raw vis uid r. has_role raw uid admin) \<rparr>"

definition Admins_can_update_projects :: policy where
  "Admins_can_update_projects = \<lparr>
     pol_name = ''Admins can update projects'', pol_table = T_projects, pol_for = FOR UPDATE,
     pol_using = Some (\<lambda>raw vis uid r. has_role raw uid admin),
     pol_with_check = None \<rparr>"

definition Admins_can_manage_project_members :: policy where
  "Admins_can_manage_project_members = \<lparr>
     pol_name = ''Admins can manage project members'', pol_table = T_project_members,
     pol_for = FOR_ALL,
     pol_using = Some (\<lambda>raw vis uid r. has_role raw uid admin),
     pol_with_check = None \<rparr>"

definition Users_can_view_their_project_memberships :: policy where
  "Users_can_view_their_project_memberships = \<lparr>
     pol_name = ''Users can view their project memberships'', pol_table = T_project_members,
     pol_for = FOR SELECT,
     pol_using = Some (\<lambda>raw vis uid r. case r of Member m \<Rightarrow> pm_user_id m = uid | _ \<Rightarrow> False),
     pol_with_check = None \<rparr>"

definition Project_members_can_view_labels :: policy where
  "Project_members_can_view_labels = \<lparr>
     pol_name = ''Project members can view labels'', pol_table = T_labels, pol_for = FOR SELECT,
     pol_using = Some (\<lambda>raw vis uid r. case r of
        Label l \<Rightarrow>
          list_ex (\<lambda>m. pm_project_id m = lb_project_id l \<and> pm_user_id m = uid)
            (project_members vis)
          \<or> has_role raw uid admin
      | _ \<Rightarrow> False),
     pol_with_check = None \<rparr>"

definition Admins_can_manage_labels :: policy where
  "Admins_can_manage_labels = \<lparr>
     pol_name = ''Admins can manage labels'', pol_table = T_labels, pol_for = FOR_ALL,
     pol_using = Some (\<lambda>raw vis uid r. has_role raw uid admin),
     pol_with_check = None \<rparr>"

definition Project_members_can_view_images :: policy where
  "Project_members_can_view_images = \<lparr>
     pol_name = ''Project members can view images'', pol_table = T_images, pol_for = FOR SELECT,
     pol_using = Some (\<lambda>raw vis uid r. case r of
        Image i \<Rightarrow>
          list_ex (\<lambda>m. pm_project_id m = im_project_id i \<and> pm_user_id m = uid)
            (project_members vis)
          \<or> has_role raw uid admin
      | _ \<Rightarrow> False),
     pol_with_check = None \<rparr>"

definition Admins_can_manage_images :: policy where
  "Admins_can_manage_images = \<lparr>
     pol_name = ''Admins can manage images'', pol_table = T_images, pol_for = FOR_ALL,
     pol_using = Some (\<lambda>raw vis uid r. has_role raw uid admin),
     pol_with_check = None \<rparr>"

text \<open>\<^verbatim>\<open>FROM project_members pm JOIN images i ON i.project_id = pm.project_id
  WHERE i.id = annotations.image_id AND pm.user_id = auth.uid()\<close>\<close>

definition member_of_image_project :: "db \<Rightarrow> uuid \<Rightarrow> uuid \<Rightarrow> bool" where
  "member_of_image_project vis uid image_id =
     list_ex (\<lambda>pm. list_ex (\<lambda>i. im_project_id i = pm_project_id pm \<and>
                                 im_id i = image_id \<and> pm_user_id pm = uid) (images vis))
       (project_members vis)"

definition Project_members_can_view_annotations :: policy where
  "Project_members_can_view_annotations = \<lparr>
     pol_name = ''Project members can view annotations'', pol_table = T_annotations,
     pol_for = FOR SELECT,
     pol_using = Some (\<lambda>raw vis uid r. case r of
        Annotation a \<Rightarrow> member_of_image_project vis uid (an_image_id a) \<or> has_role raw uid admin
      | _ \<Rightarrow> False),
     pol_with_check = None \<rparr>"

definition Annotators_can_create_annotations :: policy where
  "Annotators_can_create_annotations = \<lparr>
     pol_name = ''Annotators can create annotations'', pol_table = T_annotations,
     pol_for = FOR INSERT,
     pol_using = None,
     pol_with_check = Some (\<lambda>raw vis uid r. case r of
        Annotation a \<Rightarrow> member_of_image_project vis uid (an_image_id a) \<and> an_created_by a = uid
      | _ \<Rightarrow> False) \<rparr>"

definition Users_can_update_own_annotations :: policy where
  "Users_can_update_own_annotations = \<lparr>
     pol_name = ''Users can update own annotations'', pol_table = T_annotations,
     pol_for = FOR UPDATE,
     pol_using = Some (\<lambda>raw vis uid r. case r of
        Annotation a \<Rightarrow>
          an_created_by a = uid \<or> has_role raw uid reviewer \<or> has_role raw uid admin
      | _ \<Rightarrow> False),
     pol_with_check = None \<rparr>"

subsection \<open>The policies of the later migrations\<close>

text \<open>The migration that opens project creation to every user
  (\<^verbatim>\<open>-- Update RLS policy to allow users to create their own projects\<close>).\<close>

definition Users_can_create_projects :: policy where
  "Users_can_create_projects = \<lparr>
     pol_name = ''Users can create projects'', pol_table = T_projects, pol_for = FOR INSERT,
     pol_using = None,
     pol_with_check =
       Some (\<lambda>raw vis uid r. case r of Project p \<Rightarrow> pj_created_by p = uid | _ \<Rightarrow> False) \<rparr>"

definition Creators_and_admins_can_update_projects :: policy where
  "Creators_and_admins_can_update_projects = \<lparr>
     pol_name = ''Creators and admins can update projects'', pol_table = T_projects,
     pol_for = FOR UPDATE,
     pol_using = Some (\<lambda>raw vis uid r. case r of
        Project p \<Rightarrow> pj_created_by p = uid \<or> has_role raw uid admin
      | _ \<Rightarrow> False),
     pol_with_check = None \<rparr>"

text \<open>\<^verbatim>\<open>project_id IN (SELECT id FROM public.projects WHERE created_by = auth.uid())
  AND user_id = auth.uid()\<close>\<close>

definition Project_creator_can_add_themselves_as_member :: policy where
  "Project_creator_can_add_themselves_as_member = \<lparr>
     pol_name = ''Project creator can add themselves as member'',
     pol_table = T_project_members, pol_for = FOR INSERT,
     pol_using = None,
     pol_with_check = Some (\<lambda>raw vis uid r. case r of
        Member m \<Rightarrow>
          pm_project_id m \<in> set (map pj_id (filter (\<lambda>p. pj_created_by p = uid) (projects vis)))
          \<and> pm_user_id m = uid
      | _ \<Rightarrow> False) \<rparr>"

text \<open>Migration \<^verbatim>\<open>20250909171051_wispy_butterfly.sql\<close>.\<close>

definition Authenticated_users_can_create_projects :: policy where
  "Authenticated_users_can_create_projects = \<lparr>
     pol_name = ''Authenticated users can create projects'', pol_table = T_projects,
     pol_for = FOR INSERT,
     pol_using = None,
     pol_with_check =
       Some (\<lambda>raw vis uid r. case r of Project p \<Rightarrow> pj_created_by p = uid | _ \<Rightarrow> False) \<rparr>"

text \<open>Migration \<^verbatim>\<open>20250909171528_wild_haze.sql\<close>.\<close>

definition Users_can_manage_their_own_projects :: policy where
  "Users_can_manage_their_own_projects = \<lparr>
     pol_name = ''Users can manage their own projects'', pol_table = T_projects,
     pol_for = FOR_ALL,
     pol_using =
       Some (\<lambda>raw vis uid r. case r of Project p \<Rightarrow> pj_created_by p = uid | _ \<Rightarrow> False),
     pol_with_check =
       Some (\<lambda>raw vis uid r. case r of Project p \<Rightarrow> pj_created_by p = uid | _ \<Rightarrow> False) \<rparr>"

text \<open>\<^verbatim>\<open>EXISTS (SELECT 1 FROM projects WHERE projects.id = X.project_id
  AND projects.created_by = auth.uid())\<close>\<close>

definition in_own_project :: "db \<Rightarrow> uuid \<Rightarrow> uuid \<Rightarrow> bool" where
  "in_own_project vis uid project_id =
     list_ex (\<lambda>p. pj_id p = project_id \<and> pj_created_by p = uid) (projects vis)"

definition Users_can_manage_images_in_their_projects :: policy where
  "Users_can_manage_images_in_their_projects = \<lparr>
     pol_name = ''Users can manage images in their projects'', pol_table = T_images,
     pol_for = FOR_ALL,
     pol_using = Some (\<lambda>raw vis uid r. case r of
        Image i \<Rightarrow> in_own_project vis uid (im_project_id i) | _ \<Rightarrow> False),
     pol_with_check = Some (\<lambda>raw vis uid r. case r of
        Image i \<Rightarrow> in_own_project vis uid (im_project_id i) | _ \<Rightarrow> False) \<rparr>"

definition Users_can_manage_labels_in_their_projects :: policy where
  "Users_can_manage_labels_in_their_projects = \<lparr>
     pol_name = ''Users can manage labels in their projects'', pol_table = T_labels,
     pol_for = FOR_ALL,
     pol_using = Some (\<lambda>raw vis uid r. case r of
        Label l \<Rightarrow> in_own_project vis uid (lb_project_id l) | _ \<Rightarrow> False),
     pol_with_check = Some (\<lambda>raw vis uid r. case r of
        Label l \<Rightarrow> in_own_project vis uid (lb_project_id l) | _ \<Rightarrow> False) \<rparr>"

text \<open>\<^verbatim>\<open>EXISTS (SELECT 1 FROM images JOIN projects ON projects.id = images.project_id
  WHERE images.id = annotations.image_id AND projects.created_by = auth.uid())\<close>\<close>

definition image_in_own_project :: "db \<Rightarrow> uuid \<Rightarrow> uuid \<Rightarrow> bool" where
  "image_in_own_project vis uid image_id =
     list_ex (\<lambda>i. list_ex (\<lambda>p. pj_id p = im_project_id i \<and>
                                im_id i = image_id \<and> pj_created_by p = uid) (projects vis))
       (images vis)"

definition Users_can_manage_annotations_in_their_projects :: policy where
  "Users_can_manage_annotations_in_their_projects = \<lparr>
     pol_name = ''Users can manage annotations in their projects'', pol_table = T_annotations,
     pol_for = FOR_ALL,
     pol_using = Some (\<lambda>raw vis uid r. case r of
        Annotation a \<Rightarrow> image_in_own_project vis uid (an_image_id a) | _ \<Rightarrow> False),
     pol_with_check = Some (\<lambda>raw vis uid r. case r of
        Annotation a \<Rightarrow> image_in_own_project vis uid (an_image_id a) \<and> an_created_by a = uid
      | _ \<Rightarrow> False) \<rparr>"

section \<open>The migration history\<close>

text \<open>
  The policy statements of the migrations, run in order on the set of policies.
  \<^verbatim>\<open>CREATE POLICY\<close> fails when the table already has a policy of that name;
  \<^verbatim>\<open>DROP POLICY IF EXISTS\<close> never fails.
\<close>

datatype stmt = CREATE_POLICY policy | DROP_POLICY_IF_EXISTS string table_name

fun exec_stmt :: "stmt \<Rightarrow> policy list \<Rightarrow> policy list option" where
  "exec_stmt (CREATE_POLICY p) ps =
     (if list_ex (\<lambda>q. pol_name q = pol_name p \<and> pol_table q = pol_table p) ps then None
      else Some (ps @ [p]))"
| "exec_stmt (DROP_POLICY_IF_EXISTS n t) ps =
     Some (filter (\<lambda>q. \<not> (pol_name q = n \<and> pol_table q = t)) ps)"

fun exec_stmts :: "stmt list \<Rightarrow> policy list \<Rightarrow> policy list option" where
  "exec_stmts [] ps = Some ps"
| "exec_stmts (s # ss) ps =
     (case exec_stmt s ps of None \<Rightarrow> None | Some ps' \<Rightarrow> exec_stmts ss ps')"

definition migration_initial_schema :: "stmt list" where
  "migration_initial_schema = [
     CREATE_POLICY Users_can_view_own_profile,
     CREATE_POLICY Users_can_update_own_profile,
     CREATE_POLICY Admins_can_view_all_projects,
     CREATE_POLICY Members_can_view_assigned_projects,
     CREATE_POLICY Admins_can_create_projects,
     CREATE_POLICY Admins_can_update_projects,
     CREATE_POLICY Admins_can_manage_project_members,
     CREATE_POLICY Users_can_view_their_project_memberships,
     CREATE_POLICY Project_members_can_view_labels,
     CREATE_POLICY Admins_can_manage_labels,
     CREATE_POLICY Project_members_can_view_images,
     CREATE_POLICY Admins_can_manage_images,
     CREATE_POLICY Project_members_can_view_annotations,
     CREATE_POLICY Annotators_can_create_annotations,
     CREATE_POLICY Users_can_update_own_annotations]"

definition migration_users_create_projects :: "stmt list" where
  "migration_users_create_projects = [
     DROP_POLICY_IF_EXISTS ''Admins can create projects'' T_projects,
     CREATE_POLICY Users_can_create_projects,
     DROP_POLICY_IF_EXISTS ''Admins can update projects'' T_projects,
     CREATE_POLICY Creators_and_admins_can_update_projects]"

definition migration_creator_self_member :: "stmt list" where
  "migration_creator_self_member = [
     CREATE_POLICY Project_creator_can_add_themselves_as_member]"

definition wispy_butterfly :: "stmt list" where
  "wispy_butterfly = [
     DROP_POLICY_IF_EXISTS ''Users can create projects'' T_projects,
     CREATE_POLICY Authenticated_users_can_create_projects]"

definition wild_haze :: "stmt list" where
  "wild_haze = [
     DROP_POLICY_IF_EXISTS ''Authenticated users can create projects'' T_projects,
     DROP_POLICY_IF_EXISTS ''Members can view assigned projects'' T_projects,
     DROP_POLICY_IF_EXISTS ''Creators and admins can update projects'' T_projects,
     DROP_POLICY_IF_EXISTS ''Admins can view all projects'' T_projects,
     CREATE_POLICY Users_can_manage_their_own_projects,
     DROP_POLICY_IF_EXISTS ''Project members can view images'' T_images,
     DROP_POLICY_IF_EXISTS ''Admins can manage images'' T_images,
     CREATE_POLICY Users_can_manage_images_in_their_projects,
     DROP_POLICY_IF_EXISTS ''Project members can view labels'' T_labels,
     DROP_POLICY_IF_EXISTS ''Admins can manage labels'' T_labels,
     CREATE_POLICY Users_can_manage_labels_in_their_projects,
     DROP_POLICY_IF_EXISTS ''Project members can view annotations'' T_annotations,
     DROP_POLICY_IF_EXISTS ''Annotators can create annotations'' T_annotations,
     DROP_POLICY_IF_EXISTS ''Users can update own annotations'' T_annotations,
     CREATE_POLICY Users_can_manage_annotations_in_their_projects]"

text \<open>
  The order of the history. The schema migration comes first, the two timestamped
  migrations last; each migration drops policies that an earlier one creates
  (\<^verbatim>\<open>wispy_butterfly\<close> drops ``the existing INSERT policy'' \<^verbatim>\<open>Users can create projects\<close>,
  \<^verbatim>\<open>wild_haze\<close> drops the ``existing policies'' of all the others on projects, images,
  labels and annotations). No migration drops a policy on \<^verbatim>\<open>profiles\<close> or
  \<^verbatim>\<open>project_members\<close>, so the place of the self-enrolment migration among the others does
  not matter. The migration that resets the \<^verbatim>\<open>search_path\<close> of the trigger functions has
  no policy statement.
\<close>

definition migrations :: "stmt list" where
  "migrations = migration_initial_schema @ migration_users_create_projects @
     migration_creator_self_member @ wispy_butterfly @ wild_haze"

definition final_policies :: "policy list" where
  "final_policies = (case exec_stmts migrations [] of Some ps \<Rightarrow> ps | None \<Rightarrow> [])"

section \<open>The policy evaluator\<close>

text \<open>
  Policies are permissive: a command on a row passes when some policy of the row's table
  that applies to the command accepts the row; with no such policy the row is refused.
  A policy without \<^verbatim>\<open>WITH CHECK\<close> checks proposed rows with its \<^verbatim>\<open>USING\<close> expression.
\<close>

fun applies :: "policy_for \<Rightarrow> command \<Rightarrow> bool" where
  "applies FOR_ALL c = True"
| "applies (FOR c') c = (c' = c)"

definition using_ok :: "policy list \<Rightarrow> command \<Rightarrow> db \<Rightarrow> db \<Rightarrow> uuid \<Rightarrow> row \<Rightarrow> bool" where
  "using_ok pols c raw vis uid r =
     list_ex (\<lambda>p. pol_table p = table_of r \<and> applies (pol_for p) c \<and>
                  (case pol_using p of Some q \<Rightarrow> q raw vis uid r | None \<Rightarrow> False)) pols"

definition check_ok :: "policy list \<Rightarrow> command \<Rightarrow> db \<Rightarrow> db \<Rightarrow> uuid \<Rightarrow> row \<Rightarrow> bool" where
  "check_ok pols c raw vis uid r =
     list_ex (\<lambda>p. pol_table p = table_of r \<and> applies (pol_for p) c \<and>
                  (case pol_with_check p of
                     Some q \<Rightarrow> q raw vis uid r
                   | None \<Rightarrow> (case pol_using p of Some q \<Rightarrow> q raw vis uid r | None \<Rightarrow> False)))
       pols"

text \<open>
  A sub-select inside a policy expression runs as the calling user, so it reads each
  table through that table's \<^verbatim>\<open>SELECT\<close> policies. \<open>rls_filter\<close> keeps the rows of the
  stored state that pass them, their own sub-selects reading \<open>vis\<close>; \<open>visible\<close> nests
  this once per table, which is as deep as policies that refer to each other without a
  cycle can nest.
\<close>

definition rls_filter :: "policy list \<Rightarrow> db \<Rightarrow> uuid \<Rightarrow> db \<Rightarrow> db" where
  "rls_filter pols raw uid vis = \<lparr>
     profiles = filter (\<lambda>r. using_ok pols SELECT raw vis uid (Profile r)) (profiles raw),
     projects = filter (\<lambda>r. using_ok pols SELECT raw vis uid (Project r)) (projects raw),
     project_members =
       filter (\<lambda>r. using_ok pols SELECT raw vis uid (Member r)) (project_members raw),
     labels = filter (\<lambda>r. using_ok pols SELECT raw vis uid (Label r)) (labels raw),
     images = filter (\<lambda>r. using_ok pols SELECT raw vis uid (Image r)) (images raw),
     annotations =
       filter (\<lambda>r. using_ok pols SELECT raw vis uid (Annotation r)) (annotations raw) \<rparr>"

definition visible :: "policy list \<Rightarrow> db \<Rightarrow> uuid \<Rightarrow> db" where
  "visible pols raw uid = ((rls_filter pols raw uid) ^^ 6) raw"

definition using_allows :: "db \<Rightarrow> uuid \<Rightarrow> command \<Rightarrow> row \<Rightarrow> bool" where
  "using_allows d uid c r = using_ok final_policies c d (visible final_policies d uid) uid r"

definition check_allows :: "db \<Rightarrow> uuid \<Rightarrow> command \<Rightarrow> row \<Rightarrow> bool" where
  "check_allows d uid c r = check_ok final_policies c d (visible final_policies d uid) uid r"

datatype request = Select row | Insert row | Update row row | Delete row

datatype decision = ALLOW | DENY

text \<open>
  The decision on one row under the policies the migrations leave in force: \<^verbatim>\<open>SELECT\<close> and
  \<^verbatim>\<open>DELETE\<close> test the stored row with \<^verbatim>\<open>USING\<close>, \<^verbatim>\<open>INSERT\<close> tests the proposed row with
  \<^verbatim>\<open>WITH CHECK\<close>, \<^verbatim>\<open>UPDATE\<close> tests the stored row with \<^verbatim>\<open>USING\<close> and the proposed row
  with \<^verbatim>\<open>WITH CHECK\<close>.
\<close>

fun permitted :: "db \<Rightarrow> uuid \<Rightarrow> request \<Rightarrow> bool" where
  "permitted d uid (Select r) = using_allows d uid SELECT r"
| "permitted d uid (Insert r) = check_allows d uid INSERT r"
| "permitted d uid (Update old new) =
     (table_of old = table_of new \<and> using_allows d uid UPDATE old \<and>
      check_allows d uid UPDATE new)"
| "permitted d uid (Delete r) = using_allows d uid DELETE r"

definition authorize :: "db \<Rightarrow> uuid \<Rightarrow> request \<Rightarrow> decision" where
  "authorize d uid req = (if permitted d uid req then ALLOW else DENY)"

section \<open>The ownership graph\<close>

text \<open>
  The foreign keys of the schema lead from a label, an image or a membership to its
  project (\<^verbatim>\<open>project_id REFERENCES public.projects(id)\<close>) and from an annotation to its
  image (\<^verbatim>\<open>image_id REFERENCES public.images(id)\<close>) and on to the image's project.
\<close>

definition project_by_id :: "db \<Rightarrow> uuid \<Rightarrow> projects_row option" where
  "project_by_id d k = find (\<lambda>p. pj_id p = k) (projects d)"

definition image_by_id :: "db \<Rightarrow> uuid \<Rightarrow> images_row option" where
  "image_by_id d k = find (\<lambda>i. im_id i = k) (images d)"

fun owning_project :: "db \<Rightarrow> row \<Rightarrow> projects_row option" where
  "owning_project d (Profile r) = None"
| "owning_project d (Project r) = project_by_id d (pj_id r)"
| "owning_project d (Member r) = project_by_id d (pm_project_id r)"
| "owning_project d (Label r) = project_by_id d (lb_project_id r)"
| "owning_project d (Image r) = project_by_id d (im_project_id r)"
| "owning_project d (Annotation r) =
     (case image_by_id d (an_image_id r) of
        None \<Rightarrow> None
      | Some i \<Rightarrow> project_by_id d (im_project_id i))"

definition owner_creator :: "db \<Rightarrow> row \<Rightarrow> uuid option" where
  "owner_creator d r = map_option pj_created_by (owning_project d r)"

section \<open>Constraints of the schema\<close>

text \<open>\<^verbatim>\<open>id UUID PRIMARY KEY\<close> on every table.\<close>

definition primary_keys_ok :: "db \<Rightarrow> bool" where
  "primary_keys_ok d =
     (distinct (map pf_id (profiles d)) \<and> distinct (map pj_id (projects d)) \<and>
      distinct (map pm_id (project_members d)) \<and> distinct (map lb_id (labels d)) \<and>
      distinct (map im_id (images d)) \<and> distinct (map an_id (annotations d)))"

text \<open>\<^verbatim>\<open>UNIQUE(project_id, user_id)\<close> on project_members, \<^verbatim>\<open>UNIQUE(project_id, name)\<close> on
  labels.\<close>

definition unique_ok :: "db \<Rightarrow> bool" where
  "unique_ok d =
     (distinct (map (\<lambda>m. (pm_project_id m, pm_user_id m)) (project_members d)) \<and>
      distinct (map (\<lambda>l. (lb_project_id l, lb_name l)) (labels d)))"

text \<open>The \<^verbatim>\<open>REFERENCES\<close> clauses between the tables of schema \<^verbatim>\<open>public\<close>. The references
  to \<^verbatim>\<open>auth.users\<close>, a table of the authentication service, are outside the model.\<close>

definition foreign_keys_ok :: "db \<Rightarrow> bool" where
  "foreign_keys_ok d =
     (list_all (\<lambda>m. pm_project_id m \<in> set (map pj_id (projects d))) (project_members d) \<and>
      list_all (\<lambda>l. lb_project_id l \<in> set (map pj_id (projects d))) (labels d) \<and>
      list_all (\<lambda>i. im_project_id i \<in> set (map pj_id (projects d))) (images d) \<and>
      list_all (\<lambda>a. an_image_id a \<in> set (map im_id (images d)) \<and>
                     an_label_id a \<in> set (map lb_id (labels d))) (annotations d))"

definition constraints_ok :: "db \<Rightarrow> bool" where
  "constraints_ok d = (primary_keys_ok d \<and> unique_ok d \<and> foreign_keys_ok d)"

section \<open>Writes to the store\<close>

text \<open>
  A write is one statement on one row, addressed by its primary key as the pages of the
  application do (\<^verbatim>\<open>.insert(row)\<close>, \<^verbatim>\<open>.update(values).eq('id', k)\<close>,
  \<^verbatim>\<open>.delete().eq('id', k)\<close>). It fails as a whole or yields the next state.
\<close>

datatype error = PolicyDenied | UniqueConstraintViolation | ForeignKeyViolation

text \<open>The store accepts a proposed state when the unique indexes hold (checked as the
  row is written) and then the references hold (checked at the end of the statement).\<close>

definition commit :: "db \<Rightarrow> error + db" where
  "commit d' =
     (if \<not> (primary_keys_ok d' \<and> unique_ok d') then Inl UniqueConstraintViolation
      else if \<not> foreign_keys_ok d' then Inl ForeignKeyViolation
      else Inr d')"

text \<open>\<^verbatim>\<open>ON DELETE CASCADE\<close>: the rows whose referenced row is gone go with it, first the
  members, labels and images of a project, then the annotations of an image or label.
  On a state whose references hold this removes nothing.\<close>

definition cascade :: "db \<Rightarrow> db" where
  "cascade d =
     (let mbs = filter (\<lambda>m. pm_project_id m \<in> set (map pj_id (projects d))) (project_members d);
          lbs = filter (\<lambda>l. lb_project_id l \<in> set (map pj_id (projects d))) (labels d);
          ims = filter (\<lambda>i. im_project_id i \<in> set (map pj_id (projects d))) (images d);
          ans = filter (\<lambda>a. an_image_id a \<in> set (map im_id ims) \<and>
                           an_label_id a \<in> set (map lb_id lbs)) (annotations d)
      in d\<lparr>project_members := mbs, labels := lbs, images := ims, annotations := ans\<rparr>)"

text \<open>
  The three statements, for a table given by its rows \<open>get\<close>, its update \<open>upd\<close>, its
  injection \<open>as_row\<close> into \<open>row\<close> and its key \<open>key\<close>. An \<^verbatim>\<open>INSERT\<close> whose row fails
  \<^verbatim>\<open>WITH CHECK\<close> is an error. An \<^verbatim>\<open>UPDATE\<close> or \<^verbatim>\<open>DELETE\<close> touches the rows that match the
  key and pass \<^verbatim>\<open>USING\<close> (the others stay as they are, without an error); an updated row
  that fails \<^verbatim>\<open>WITH CHECK\<close> is an error. \<open>touch\<close> is the \<^verbatim>\<open>BEFORE UPDATE\<close> trigger.
\<close>

definition insert_into ::
  "(('r list \<Rightarrow> 'r list) \<Rightarrow> db \<Rightarrow> db) \<Rightarrow> ('r \<Rightarrow> row) \<Rightarrow> db \<Rightarrow> uuid \<Rightarrow> 'r \<Rightarrow> error + db" where
  "insert_into upd as_row d uid new =
     (if \<not> check_allows d uid INSERT (as_row new) then Inl PolicyDenied
      else commit (upd (\<lambda>rs. rs @ [new]) d))"

definition update_in ::
  "(db \<Rightarrow> 'r list) \<Rightarrow> (('r list \<Rightarrow> 'r list) \<Rightarrow> db \<Rightarrow> db) \<Rightarrow> ('r \<Rightarrow> row) \<Rightarrow> ('r \<Rightarrow> uuid) \<Rightarrow>
   ('r \<Rightarrow> 'r) \<Rightarrow> db \<Rightarrow> uuid \<Rightarrow> uuid \<Rightarrow> ('r \<Rightarrow> 'r) \<Rightarrow> error + db" where
  "update_in get upd as_row key touch d uid k f =
     (let hit = (\<lambda>r. key r = k \<and> using_allows d uid UPDATE (as_row r));
          new = (\<lambda>r. touch (f r))
      in if list_ex (\<lambda>r. hit r \<and> \<not> check_allows d uid UPDATE (as_row (new r))) (get d)
         then Inl PolicyDenied
         else commit (upd (map (\<lambda>r. if hit r then new r else r)) d))"

definition delete_from ::
  "(('r list \<Rightarrow> 'r list) \<Rightarrow> db \<Rightarrow> db) \<Rightarrow> ('r \<Rightarrow> row) \<Rightarrow> ('r \<Rightarrow> uuid) \<Rightarrow>
   db \<Rightarrow> uuid \<Rightarrow> uuid \<Rightarrow> error + db" where
  "delete_from upd as_row key d uid k =
     (let hit = (\<lambda>r. key r = k \<and> using_allows d uid DELETE (as_row r))
      in Inr (cascade (upd (filter (\<lambda>r. \<not> hit r)) d)))"

text \<open>\<^verbatim>\<open>public.handle_new_user()\<close>, the trigger on sign-up: it inserts the profile of the
  new user, with the column defaults, and is not subject to the policies
  (\<^verbatim>\<open>SECURITY DEFINER\<close>).\<close>

definition handle_new_user ::
  "db \<Rightarrow> timestamptz \<Rightarrow> uuid \<Rightarrow> string \<Rightarrow> string option \<Rightarrow> error + db" where
  "handle_new_user d now new_id new_email meta_full_name =
     commit (d\<lparr>profiles := profiles d @ [\<lparr>
        pf_id = new_id, pf_email = new_email,
        pf_full_name = Some (case meta_full_name of Some n \<Rightarrow> n | None \<Rightarrow> []),
        pf_role = annotator, pf_created_at = now, pf_updated_at = now \<rparr>]\<rparr>)"

datatype write_op =
  Sign_up uuid string "string option"
| Update_profile uuid "profiles_row \<Rightarrow> profiles_row"
| Insert_project projects_row
| Update_project uuid "projects_row \<Rightarrow> projects_row"
| Delete_project uuid
| Insert_member project_members_row
| Update_member uuid "project_members_row \<Rightarrow> project_members_row"
| Delete_member uuid
| Insert_label labels_row
| Update_label uuid "labels_row \<Rightarrow> labels_row"
| Delete_label uuid
| Insert_image images_row
| Update_image uuid "images_row \<Rightarrow> images_row"
| Delete_image uuid
| Insert_annotation annotations_row
| Update_annotation uuid "annotations_row \<Rightarrow> annotations_row"
| Delete_annotation uuid

text \<open>One write by the caller \<open>uid\<close> at time \<open>now\<close>. The tables with an
  \<^verbatim>\<open>update_..._updated_at\<close> trigger set \<^verbatim>\<open>updated_at = NOW()\<close> on every updated row.\<close>

fun exec :: "db \<Rightarrow> uuid \<Rightarrow> timestamptz \<Rightarrow> write_op \<Rightarrow> error + db" where
  "exec d uid now (Sign_up new_id new_email meta) = handle_new_user d now new_id new_email meta"
| "exec d uid now (Update_profile k f) =
     update_in profiles profiles_update Profile pf_id (\<lambda>r. r\<lparr>pf_updated_at := now\<rparr>) d uid k f"
| "exec d uid now (Insert_project new) = insert_into projects_update Project d uid new"
| "exec d uid now (Update_project k f) =
     update_in projects projects_update Project pj_id (\<lambda>r. r\<lparr>pj_updated_at := now\<rparr>) d uid k f"
| "exec d uid now (Delete_project k) = delete_from projects_update Project pj_id d uid k"
| "exec d uid now (Insert_member new) = insert_into project_members_update Member d uid new"
| "exec d uid now (Update_member k f) =
     update_in project_members project_members_update Member pm_id (\<lambda>r. r) d uid k f"
| "exec d uid now (Delete_member k) = delete_from project_members_update Member pm_id d uid k"
| "exec d uid now (Insert_label new) = insert_into labels_update Label d uid new"
| "exec d uid now (Update_label k f) =
     update_in labels labels_update Label lb_id (\<lambda>r. r) d uid k f"
| "exec d uid now (Delete_label k) = delete_from labels_update Label lb_id d uid k"
| "exec d uid now (Insert_image new) = insert_into images_update Image d uid new"
| "exec d uid now (Update_image k f) =
     update_in images images_update Image im_id (\<lambda>r. r\<lparr>im_updated_at := now\<rparr>) d uid k f"
| "exec d uid now (Delete_image k) = delete_from images_update Image im_id d uid k"
| "exec d uid now (Insert_annotation new) = insert_into annotations_update Annotation d uid new"
| "exec d uid now (Update_annotation k f) =
     update_in annotations annotations_update Annotation an_id
       (\<lambda>r. r\<lparr>an_updated_at := now\<rparr>) d uid k f"
| "exec d uid now (Delete_annotation k) =
     delete_from annotations_update Annotation an_id d uid k"

text \<open>A history of writes, each by its own caller at its own time; it stops at the
  first error.\<close>

fun exec_all :: "db \<Rightarrow> (uuid \<times> timestamptz \<times> write_op) list \<Rightarrow> error + db" where
  "exec_all d [] = Inr d"
| "exec_all d ((uid, now, w) # ws) =
     (case exec d uid now w of Inl e \<Rightarrow> Inl e | Inr d' \<Rightarrow> exec_all d' ws)"

definition empty_db :: db where
  "empty_db = \<lparr>profiles = [], projects = [], project_members = [], labels = [],
                images = [], annotations = []\<rparr>"

text \<open>The states the store can be in: those a history of writes leads to from the empty
  store.\<close>

inductive reachable :: "db \<Rightarrow> bool" where
  reachable_empty: "reachable empty_db"
| reachable_exec: "reachable d \<Longrightarrow> exec d uid now w = Inr d' \<Longrightarrow> reachable d'"

section \<open>Properties of histories and states\<close>

text \<open>The writes that add a project row or remove one.\<close>

fun creates_or_deletes_project :: "write_op \<Rightarrow> bool" where
  "creates_or_deletes_project (Insert_project new) = True"
| "creates_or_deletes_project (Delete_project k) = True"
| "creates_or_deletes_project w = False"

text \<open>The writes that remove a project row.\<close>

fun deletes_project :: "write_op \<Rightarrow> bool" where
  "deletes_project (Delete_project k) = True"
| "deletes_project w = False"

text \<open>The writes that are a sign-up.\<close>

fun signs_up :: "write_op \<Rightarrow> bool" where
  "signs_up (Sign_up i e m) = True"
| "signs_up w = False"

text \<open>Every annotation lies on an image of a project whose creator is the annotation's
  \<^verbatim>\<open>created_by\<close>: once through the ownership graph, once as the sub-select of the
  annotation policy reads it.\<close>

definition annotation_creator_inv :: "db \<Rightarrow> bool" where
  "annotation_creator_inv d =
     list_all (\<lambda>a. owner_creator d (Annotation a) = Some (an_created_by a)) (annotations d)"

definition owned :: "db \<Rightarrow> bool" where
  "owned d = (\<forall>a \<in> set (annotations d).
     image_in_own_project d (an_created_by a) (an_image_id a))"

section \<open>A concrete store\<close>

text \<open>
  One project with one label, one image and one annotation, all of user 101; user 102
  has no relation to the project, user 103 has the global role reviewer and user 104
  the global role admin.
\<close>

definition scenario_project :: projects_row where
  "scenario_project = \<lparr>pj_id = 10, pj_name = ''p1'', pj_description = None,
     pj_created_by = 101, pj_status = active, pj_created_at = 0, pj_updated_at = 0\<rparr>"

definition scenario_label :: labels_row where
  "scenario_label = \<lparr>lb_id = 20, lb_project_id = 10, lb_name = ''l1'',
     lb_color = ''#3B82F6'', lb_annotation_type = bounding_box, lb_created_at = 0\<rparr>"

definition scenario_image :: images_row where
  "scenario_image = \<lparr>im_id = 30, im_project_id = 10, im_filename = ''i1.png'',
     im_original_filename = ''i1.png'', im_file_path = ''p1/i1.png'', im_file_size = 1024,
     im_width = None, im_height = None, im_status = pending, im_assigned_to = None,
     im_uploaded_by = 101, im_created_at = 0, im_updated_at = 0\<rparr>"

definition scenario_annotation :: annotations_row where
  "scenario_annotation = \<lparr>an_id = 40, an_image_id = 30, an_label_id = 20,
     an_annotation_data = ''{}'', an_annotation_type = bounding_box, an_created_by = 101,
     an_reviewed_by = None, an_is_approved = None, an_notes = None,
     an_created_at = 0, an_updated_at = 0\<rparr>"

definition scenario_profile :: "uuid \<Rightarrow> user_role \<Rightarrow> profiles_row" where
  "scenario_profile u r = \<lparr>pf_id = u, pf_email = ''user@example.org'', pf_full_name = None,
     pf_role = r, pf_created_at = 0, pf_updated_at = 0\<rparr>"

definition scenario_db :: db where
  "scenario_db = \<lparr>
     profiles = [scenario_profile 101 annotator, scenario_profile 102 annotator,
                 scenario_profile 103 reviewer, scenario_profile 104 admin],
     projects = [scenario_project], project_members = [], labels = [scenario_label],
     images = [scenario_image], annotations = [scenario_annotation]\<rparr>"

definition scenario_membership :: "uuid \<Rightarrow> uuid \<Rightarrow> project_members_row" where
  "scenario_membership k u =
     \<lparr>pm_id = k, pm_project_id = 10, pm_user_id = u, pm_role = annotator, pm_created_at = 0\<rparr>"

text \<open>The same project built from the empty store: the user signs up, then creates the
  project, two labels, the image and the annotation.\<close>

definition second_label :: labels_row where
  "second_label = scenario_label\<lparr>lb_id := 21, lb_name := ''l2''\<rparr>"

definition creation_history :: "(uuid \<times> timestamptz \<times> write_op) list" where
  "creation_history = [
     (101, 0, Sign_up 101 ''user@example.org'' None),
     (101, 0, Insert_project scenario_project),
     (101, 0, Insert_label scenario_label),
     (101, 0, Insert_label second_label),
     (101, 0, Insert_image scenario_image),
     (101, 0, Insert_annotation scenario_annotation)]"

definition created_db :: db where
  "created_db = \<lparr>
     profiles = [\<lparr>pf_id = 101, pf_email = ''user@example.org'', pf_full_name = Some [],
                  pf_role = annotator, pf_created_at = 0, pf_updated_at = 0\<rparr>],
     projects = [scenario_project], project_members = [],
     labels = [scenario_label, second_label],
     images = [scenario_image], annotations = [scenario_annotation]\<rparr>"

text \<open>Later writes: the creator pauses the project, the admin tries to take it over,
  user 102 creates a project of their own, the creator starts on the image.\<close>

definition other_project :: projects_row where
  "other_project = scenario_project\<lparr>pj_id := 11, pj_name := ''p2'', pj_created_by := 102\<rparr>"

definition update_history :: "(uuid \<times> timestamptz \<times> write_op) list" where
  "update_history = [
     (101, 5, Update_project 10 (\<lambda>p. p\<lparr>pj_status := paused\<rparr>)),
     (104, 6, Update_project 10 (\<lambda>p. p\<lparr>pj_created_by := 104\<rparr>)),
     (102, 7, Insert_project other_project),
     (101, 8, Update_image 30 (\<lambda>i. i\<lparr>im_status := in_progress\<rparr>))]"

section \<open>The policies in force\<close>

text \<open>The policy set after the last migration, and what it decides on each table.\<close>

lemmas policy_defs = Users_can_view_own_profile_def Users_can_update_own_profile_def
  Admins_can_view_all_projects_def Members_can_view_assigned_projects_def
  Admins_can_create_projects_def Admins_can_update_projects_def
  Admins_can_manage_project_members_def Users_can_view_their_project_memberships_def
  Project_members_can_view_labels_def Admins_can_manage_labels_def
  Project_members_can_view_images_def Admins_can_manage_images_def
  Project_members_can_view_annotations_def Annotators_can_create_annotations_def
  Users_can_update_own_annotations_def Users_can_create_projects_def
  Creators_and_admins_can_update_projects_def Project_creator_can_add_themselves_as_member_def
  Authenticated_users_can_create_projects_def Users_can_manage_their_own_projects_def
  Users_can_manage_images_in_their_projects_def Users_can_manage_labels_in_their_projects_def
  Users_can_manage_annotations_in_their_projects_def

lemma policy_names:
  "pol_name Users_can_view_own_profile = ''Users can view own profile''"
  "pol_name Users_can_update_own_profile = ''Users can update own profile''"
  "pol_name Admins_can_view_all_projects = ''Admins can view all projects''"
  "pol_name Members_can_view_assigned_projects = ''Members can view assigned projects''"
  "pol_name Admins_can_create_projects = ''Admins can create projects''"
  "pol_name Admins_can_update_projects = ''Admins can update projects''"
  "pol_name Admins_can_manage_project_members = ''Admins can manage project members''"
  "pol_name Users_can_view_their_project_memberships =
     ''Users can view their project memberships''"
  "pol_name Project_members_can_view_labels = ''Project members can view labels''"
  "pol_name Admins_can_manage_labels = ''Admins can manage labels''"
  "pol_name Project_members_can_view_images = ''Project members can view images''"
  "pol_name Admins_can_manage_images = ''Admins can manage images''"
  "pol_name Project_members_can_view_annotations = ''Project members can view annotations''"
  "pol_name Annotators_can_create_annotations = ''Annotators can create annotations''"
  "pol_name Users_can_update_own_annotations = ''Users can update own annotations''"
  "pol_name Users_can_create_projects = ''Users can create projects''"
  "pol_name Creators_and_admins_can_update_projects =
     ''Creators and admins can update projects''"
  "pol_name Project_creator_can_add_themselves_as_member =
     ''Project creator can add themselves as member''"
  "pol_name Authenticated_users_can_create_projects =
     ''Authenticated users can create projects''"
  "pol_name Users_can_manage_their_own_projects = ''Users can manage their own projects''"
  "pol_name Users_can_manage_images_in_their_projects =
     ''Users can manage images in their projects''"
  "pol_name Users_can_manage_labels_in_their_projects =
     ''Users can manage labels in their projects''"
  "pol_name Users_can_manage_annotations_in_their_projects =
     ''Users can manage annotations in their projects''"
  by (simp_all add: policy_defs)

lemma policy_tables:
  "pol_table Users_can_view_own_profile = T_profiles"
  "pol_table Users_can_update_own_profile = T_profiles"
  "pol_table Admins_can_view_all_projects = T_projects"
  "pol_table Members_can_view_assigned_projects = T_projects"
  "pol_table Admins_can_create_projects = T_projects"
  "pol_table Admins_can_update_projects = T_projects"
  "pol_table Admins_can_manage_project_members = T_project_members"
  "pol_table Users_can_view_their_project_memberships = T_project_members"
  "pol_table Project_members_can_view_labels = T_labels"
  "pol_table Admins_can_manage_labels = T_labels"
  "pol_table Project_members_can_view_images = T_images"
  "pol_table Admins_can_manage_images = T_images"
  "pol_table Project_members_can_view_annotations = T_annotations"
  "pol_table Annotators_can_create_annotations = T_annotations"
  "pol_table Users_can_update_own_annotations = T_annotations"
  "pol_table Users_can_create_projects = T_projects"
  "pol_table Creators_and_admins_can_update_projects = T_projects"
  "pol_table Project_creator_can_add_themselves_as_member = T_project_members"
  "pol_table Authenticated_users_can_create_projects = T_projects"
  "pol_table Users_can_manage_their_own_projects = T_projects"
  "pol_table Users_can_manage_images_in_their_projects = T_images"
  "pol_table Users_can_manage_labels_in_their_projects = T_labels"
  "pol_table Users_can_manage_annotations_in_their_projects = T_annotations"
  by (simp_all add: policy_defs)

lemma migrations_run:
  "exec_stmts migrations [] = Some [
     Users_can_view_own_profile, Users_can_update_own_profile,
     Admins_can_manage_project_members, Users_can_view_their_project_memberships,
     Project_creator_can_add_themselves_as_member,
     Users_can_manage_their_own_projects,
     Users_can_manage_images_in_their_projects,
     Users_can_manage_labels_in_their_projects,
     Users_can_manage_annotations_in_their_projects]"
  unfolding migrations_def migration_initial_schema_def migration_users_create_projects_def
    migration_creator_self_member_def wispy_butterfly_def wild_haze_def
  by (simp add: policy_names policy_tables)

lemma final_policies_eq:
  "final_policies = [
     Users_can_view_own_profile, Users_can_update_own_profile,
     Admins_can_manage_project_members, Users_can_view_their_project_memberships,
     Project_creator_can_add_themselves_as_member,
     Users_can_manage_their_own_projects,
     Users_can_manage_images_in_their_projects,
     Users_can_manage_labels_in_their_projects,
     Users_can_manage_annotations_in_their_projects]"
  by (simp add: final_policies_def migrations_run)

lemma using_final_project:
  "using_ok final_policies c raw vis uid (Project p) = (pj_created_by p = uid)"
  by (simp add: final_policies_eq using_ok_def policy_defs)

lemma check_final_project:
  "check_ok final_policies c raw vis uid (Project p) = (pj_created_by p = uid)"
  by (simp add: final_policies_eq check_ok_def policy_defs)

lemma using_final_image:
  "using_ok final_policies c raw vis uid (Image i) = in_own_project vis uid (im_project_id i)"
  by (simp add: final_policies_eq using_ok_def policy_defs)

lemma check_final_image:
  "check_ok final_policies c raw vis uid (Image i) = in_own_project vis uid (im_project_id i)"
  by (simp add: final_policies_eq check_ok_def policy_defs)

lemma using_final_label:
  "using_ok final_policies c raw vis uid (Label l) = in_own_project vis uid (lb_project_id l)"
  by (simp add: final_policies_eq using_ok_def policy_defs)

lemma check_final_label:
  "check_ok final_policies c raw vis uid (Label l) = in_own_project vis uid (lb_project_id l)"
  by (simp add: final_policies_eq check_ok_def policy_defs)

lemma using_final_annotation:
  "using_ok final_policies c raw vis uid (Annotation a) =
     image_in_own_project vis uid (an_image_id a)"
  by (simp add: final_policies_eq using_ok_def policy_defs)

lemma check_final_annotation:
  "check_ok final_policies c raw vis uid (Annotation a) =
     (image_in_own_project vis uid (an_image_id a) \<and> an_created_by a = uid)"
  by (simp add: final_policies_eq check_ok_def policy_defs)

lemma using_final_member:
  "using_ok final_policies c raw vis uid (Member m) =
     (has_role raw uid admin \<or> (c = SELECT \<and> pm_user_id m = uid))"
  by (auto simp add: final_policies_eq using_ok_def policy_defs)

lemma in_own_project_IN:
  "(k \<in> set (map pj_id (filter (\<lambda>p. pj_created_by p = uid) (projects vis)))) =
     in_own_project vis uid k"
  by (auto simp add: in_own_project_def list_ex_iff)

lemma check_final_member:
  "check_ok final_policies c raw vis uid (Member m) =
     (has_role raw uid admin \<or> (c = SELECT \<and> pm_user_id m = uid) \<or>
      (c = INSERT \<and> in_own_project vis uid (pm_project_id m) \<and> pm_user_id m = uid))"
  by (auto simp add: final_policies_eq check_ok_def policy_defs in_own_project_IN
      simp del: set_map set_filter)

lemma using_final_profile:
  "using_ok final_policies c raw vis uid (Profile p) =
     ((c = SELECT \<or> c = UPDATE) \<and> uid = pf_id p)"
  by (auto simp add: final_policies_eq using_ok_def policy_defs)

lemma check_final_profile:
  "check_ok final_policies c raw vis uid (Profile p) =
     ((c = SELECT \<or> c = UPDATE) \<and> uid = pf_id p)"
  by (auto simp add: final_policies_eq check_ok_def policy_defs)

lemma projects_rls_filter:
  "projects (rls_filter final_policies raw uid vis) =
     filter (\<lambda>p. pj_created_by p = uid) (projects raw)"
  by (simp add: rls_filter_def using_final_project)

lemma images_rls_filter:
  "images (rls_filter final_policies raw uid vis) =
     filter (\<lambda>i. in_own_project vis uid (im_project_id i)) (images raw)"
  by (simp add: rls_filter_def using_final_image)

lemma in_own_project_rls_filter:
  "in_own_project (rls_filter final_policies raw uid vis) uid k = in_own_project raw uid k"
  by (auto simp add: in_own_project_def projects_rls_filter list_ex_iff)

lemma image_in_own_project_rls_filter:
  "image_in_own_project
     (rls_filter final_policies raw uid (rls_filter final_policies raw uid vis)) uid k =
   image_in_own_project raw uid k"
  by (auto simp add: image_in_own_project_def projects_rls_filter images_rls_filter
      in_own_project_rls_filter list_ex_iff in_own_project_def)

lemma visible_unfold:
  "visible pols raw uid =
     rls_filter pols raw uid (rls_filter pols raw uid (rls_filter pols raw uid
       (rls_filter pols raw uid (rls_filter pols raw uid (rls_filter pols raw uid raw)))))"
  by (simp add: visible_def eval_nat_numeral)

text \<open>Nesting the filter further changes nothing: the view is a fixed point.\<close>

lemma rls_filter_final:
  "rls_filter final_policies raw uid vis = \<lparr>
     profiles = filter (\<lambda>r. uid = pf_id r) (profiles raw),
     projects = filter (\<lambda>r. pj_created_by r = uid) (projects raw),
     project_members =
       filter (\<lambda>r. has_role raw uid admin \<or> pm_user_id r = uid) (project_members raw),
     labels = filter (\<lambda>r. in_own_project vis uid (lb_project_id r)) (labels raw),
     images = filter (\<lambda>r. in_own_project vis uid (im_project_id r)) (images raw),
     annotations =
       filter (\<lambda>r. image_in_own_project vis uid (an_image_id r)) (annotations raw) \<rparr>"
  by (simp add: rls_filter_def using_final_project using_final_image using_final_label
      using_final_annotation using_final_member using_final_profile)

lemma visible_fixpoint:
  "rls_filter final_policies raw uid (visible final_policies raw uid) =
     visible final_policies raw uid"
proof -
  let ?F = "rls_filter final_policies raw uid"
  have exact: "?F (?F (?F w)) = \<lparr>
     profiles = filter (\<lambda>r. uid = pf_id r) (profiles raw),
     projects = filter (\<lambda>r. pj_created_by r = uid) (projects raw),
     project_members =
       filter (\<lambda>r. has_role raw uid admin \<or> pm_user_id r = uid) (project_members raw),
     labels = filter (\<lambda>r. in_own_project raw uid (lb_project_id r)) (labels raw),
     images = filter (\<lambda>r. in_own_project raw uid (im_project_id r)) (images raw),
     annotations =
       filter (\<lambda>r. image_in_own_project raw uid (an_image_id r)) (annotations raw) \<rparr>" for w
    by (simp only: rls_filter_final [of raw uid "?F (?F w)"] in_own_project_rls_filter
        image_in_own_project_rls_filter)
  have "?F (?F (?F (?F v))) = ?F (?F (?F v))" for v
    using exact [of "?F v"] exact [of v] by (rule trans [OF _ sym])
  then show ?thesis
    by (simp only: visible_unfold)
qed

lemma in_own_project_visible:
  "in_own_project (visible final_policies raw uid) uid k = in_own_project raw uid k"
  by (simp add: visible_unfold in_own_project_rls_filter)

lemma image_in_own_project_visible:
  "image_in_own_project (visible final_policies raw uid) uid k = image_in_own_project raw uid k"
  by (simp add: visible_unfold image_in_own_project_rls_filter)

lemma using_allows_simps:
  "using_allows d uid c (Project p) = (pj_created_by p = uid)"
  "using_allows d uid c (Image i) = in_own_project d uid (im_project_id i)"
  "using_allows d uid c (Label l) = in_own_project d uid (lb_project_id l)"
  "using_allows d uid c (Annotation a) = image_in_own_project d uid (an_image_id a)"
  "using_allows d uid c (Member m) =
     (has_role d uid admin \<or> (c = SELECT \<and> pm_user_id m = uid))"
  "using_allows d uid c (Profile r) = ((c = SELECT \<or> c = UPDATE) \<and> uid = pf_id r)"
  by (simp_all add: using_allows_def using_final_project using_final_image using_final_label
      using_final_annotation using_final_member using_final_profile
      in_own_project_visible image_in_own_project_visible)

lemma check_allows_simps:
  "check_allows d uid c (Project p) = (pj_created_by p = uid)"
  "check_allows d uid c (Image i) = in_own_project d uid (im_project_id i)"
  "check_allows d uid c (Label l) = in_own_project d uid (lb_project_id l)"
  "check_allows d uid c (Annotation a) =
     (image_in_own_project d uid (an_image_id a) \<and> an_created_by a = uid)"
  "check_allows d uid c (Member m) =
     (has_role d uid admin \<or> (c = SELECT \<and> pm_user_id m = uid) \<or>
      (c = INSERT \<and> in_own_project d uid (pm_project_id m) \<and> pm_user_id m = uid))"
  "check_allows d uid c (Profile r) = ((c = SELECT \<or> c = UPDATE) \<and> uid = pf_id r)"
  by (simp_all add: check_allows_def check_final_project check_final_image check_final_label
      check_final_annotation check_final_member check_final_profile
      in_own_project_visible image_in_own_project_visible)

lemma find_distinct_key:
  "distinct (map f xs) \<Longrightarrow> x \<in> set xs \<Longrightarrow> find (\<lambda>y. f y = f x) xs = Some x"
  by (induction xs) (auto simp add: image_iff)

lemma find_key_None: "(find (\<lambda>y. f y = k) xs = None) = (k \<notin> f ` set xs)"
  by (auto simp add: find_None_iff)

lemma in_own_project_owner:
  assumes "distinct (map pj_id (projects d))"
  shows "in_own_project d uid k = (map_option pj_created_by (project_by_id d k) = Some uid)"
proof (cases "project_by_id d k")
  case None
  then have "k \<notin> pj_id ` set (projects d)"
    by (simp add: project_by_id_def find_key_None)
  with None show ?thesis
    by (auto simp add: in_own_project_def list_ex_iff)
next
  case (Some p)
  then have p: "p \<in> set (projects d)" "pj_id p = k"
    by (auto simp add: project_by_id_def find_Some_iff)
  have "q = p" if "q \<in> set (projects d)" "pj_id q = k" for q
    using find_distinct_key [OF assms that(1)] that(2) Some
    by (simp add: project_by_id_def)
  then have "(\<exists>q \<in> set (projects d). pj_id q = k \<and> pj_created_by q = uid) =
      (pj_created_by p = uid)"
    using p by blast
  then show ?thesis
    by (simp add: in_own_project_def list_ex_iff Some)
qed

lemma image_in_own_project_owner:
  assumes "distinct (map pj_id (projects d))" and "distinct (map im_id (images d))"
  shows "image_in_own_project d uid k =
     (case image_by_id d k of None \<Rightarrow> False
      | Some i \<Rightarrow> map_option pj_created_by (project_by_id d (im_project_id i)) = Some uid)"
proof -
  have split: "image_in_own_project d uid k =
      (\<exists>i \<in> set (images d). im_id i = k \<and> in_own_project d uid (im_project_id i))"
    by (auto simp add: image_in_own_project_def in_own_project_def list_ex_iff)
  show ?thesis
  proof (cases "image_by_id d k")
    case None
    then have "k \<notin> im_id ` set (images d)"
      by (simp add: image_by_id_def find_key_None)
    with None show ?thesis
      by (auto simp add: split)
  next
    case (Some i)
    then have i: "i \<in> set (images d)" "im_id i = k"
      by (auto simp add: image_by_id_def find_Some_iff)
    have "j = i" if "j \<in> set (images d)" "im_id j = k" for j
      using find_distinct_key [OF assms(2) that(1)] that(2) Some
      by (simp add: image_by_id_def)
    then have "(\<exists>j \<in> set (images d). im_id j = k \<and> in_own_project d uid (im_project_id j)) =
        in_own_project d uid (im_project_id i)"
      using i by blast
    then show ?thesis
      by (simp add: split Some in_own_project_owner [OF assms(1)])
  qed
qed

lemma primary_keys_okD:
  "primary_keys_ok d \<Longrightarrow> distinct (map pj_id (projects d))"
  "primary_keys_ok d \<Longrightarrow> distinct (map im_id (images d))"
  by (simp_all add: primary_keys_ok_def)

lemma owner_creator_simps:
  "primary_keys_ok d \<Longrightarrow>
     in_own_project d uid (lb_project_id l) = (owner_creator d (Label l) = Some uid)"
  "primary_keys_ok d \<Longrightarrow>
     in_own_project d uid (im_project_id i) = (owner_creator d (Image i) = Some uid)"
  "primary_keys_ok d \<Longrightarrow>
     in_own_project d uid (pm_project_id m) = (owner_creator d (Member m) = Some uid)"
  "primary_keys_ok d \<Longrightarrow>
     image_in_own_project d uid (an_image_id a) = (owner_creator d (Annotation a) = Some uid)"
  by (simp_all add: owner_creator_def in_own_project_owner image_in_own_project_owner
      primary_keys_okD split: option.splits)

text \<open>An \<^verbatim>\<open>UPDATE\<close> or \<^verbatim>\<open>DELETE\<close> with a \<^verbatim>\<open>WHERE\<close> clause also reads the row, which
  asks for the \<^verbatim>\<open>SELECT\<close> policies; under the policies in force every row that passes
  \<^verbatim>\<open>USING\<close> for one of the two passes it for \<^verbatim>\<open>SELECT\<close>.\<close>

lemma using_allows_implies_select:
  "using_allows d uid c r \<Longrightarrow> using_allows d uid SELECT r"
  by (cases r) (auto simp add: using_allows_simps)

section \<open>Facts about the concrete store\<close>

lemmas scenario_defs = scenario_db_def scenario_project_def scenario_label_def
  scenario_image_def scenario_annotation_def scenario_profile_def

lemma authorize_ALLOW: "(authorize d uid req = ALLOW) = permitted d uid req"
  by (simp add: authorize_def)

lemma authorize_DENY: "(authorize d uid req = DENY) = (\<not> permitted d uid req)"
  by (simp add: authorize_def)

lemma scenario_primary_keys: "primary_keys_ok scenario_db"
  by (simp add: primary_keys_ok_def scenario_defs)

lemma scenario_owner:
  "owner_creator scenario_db (Annotation scenario_annotation) = Some 101"
  "owner_creator scenario_db (Annotation (scenario_annotation\<lparr>an_created_by := 102\<rparr>)) = Some 101"
  "owner_creator scenario_db (Label scenario_label) = Some 101"
  "owner_creator scenario_db (Image scenario_image) = Some 101"
  by (simp_all add: owner_creator_def image_by_id_def project_by_id_def scenario_defs)

lemma scenario_fields:
  "an_created_by scenario_annotation = 101"
  "an_created_by (scenario_annotation\<lparr>an_created_by := 102\<rparr>) = 102"
  by (simp_all add: scenario_defs)

lemma scenario_member_owner:
  "owner_creator scenario_db (Member (scenario_membership k u)) = Some 101"
  "pm_user_id (scenario_membership k u) = u"
  by (simp_all add: owner_creator_def project_by_id_def scenario_defs scenario_membership_def)

lemma scenario_roles:
  "has_role scenario_db 101 admin = False" "has_role scenario_db 102 admin = False"
  "has_role scenario_db 103 admin = False" "has_role scenario_db 104 admin = True"
  by (simp_all add: has_role_def scenario_defs)

section \<open>Writes and the constraints\<close>

lemma commit_Inr: "(commit d' = Inr d'') = (d'' = d' \<and> constraints_ok d')"
  by (auto simp add: commit_def constraints_ok_def)

lemma cascade_keeps:
  "projects (cascade d) = projects d" "profiles (cascade d) = profiles d"
  by (simp_all add: cascade_def Let_def)

lemma insert_into_Inr:
  "(insert_into upd as_row d uid new = Inr d') =
     (check_allows d uid INSERT (as_row new) \<and> d' = upd (\<lambda>rs. rs @ [new]) d \<and>
      constraints_ok d')"
  by (auto simp add: insert_into_def commit_Inr)

lemma update_in_Inr:
  "(update_in get upd as_row key touch d uid k f = Inr d') =
     ((\<forall>r \<in> set (get d). key r = k \<and> using_allows d uid UPDATE (as_row r) \<longrightarrow>
          check_allows d uid UPDATE (as_row (touch (f r)))) \<and>
      d' = upd (map (\<lambda>r. if key r = k \<and> using_allows d uid UPDATE (as_row r)
                          then touch (f r) else r)) d \<and>
      constraints_ok d')"
  by (auto simp add: update_in_def Let_def commit_Inr list_ex_iff)

lemma delete_from_Inr:
  "(delete_from upd as_row key d uid k = Inr d') =
     (d' = cascade (upd (filter (\<lambda>r. \<not> (key r = k \<and> using_allows d uid DELETE (as_row r)))) d))"
  by (auto simp add: delete_from_def Let_def)

lemma handle_new_user_Inr:
  "handle_new_user d now i e m = Inr d' \<Longrightarrow>
     (\<exists>r. d' = d\<lparr>profiles := profiles d @ [r]\<rparr>) \<and> constraints_ok d'"
  by (auto simp add: handle_new_user_def commit_Inr)

lemma exec_keeps_project_creators:
  assumes "exec d uid now w = Inr d'" and "\<not> creates_or_deletes_project w"
  shows "map pj_created_by (projects d') = map pj_created_by (projects d)"
proof (cases w)
  case (Update_project k f)
  with assms(1) show ?thesis
    by (auto simp add: update_in_Inr using_allows_simps check_allows_simps)
next
  case (Sign_up i e m)
  with assms(1) show ?thesis
    by (auto dest: handle_new_user_Inr)
qed (use assms in \<open>auto simp add: update_in_Inr insert_into_Inr delete_from_Inr cascade_keeps\<close>)

lemma exec_extends_project_creators:
  assumes "exec d uid now w = Inr d'" and "\<not> deletes_project w"
  shows "take (length (projects d)) (map pj_created_by (projects d')) =
           map pj_created_by (projects d) \<and> length (projects d) \<le> length (projects d')"
proof (cases "creates_or_deletes_project w")
  case False
  with assms(1) have "map pj_created_by (projects d') = map pj_created_by (projects d)"
    by (rule exec_keeps_project_creators)
  then show ?thesis
    by (metis length_map order_refl take_all)
next
  case True
  with assms(2) obtain new where "w = Insert_project new"
    by (cases w) auto
  with assms(1) have "projects d' = projects d @ [new]"
    by (auto simp add: insert_into_Inr)
  then show ?thesis by simp
qed

lemma exec_all_extends_project_creators:
  "exec_all d ws = Inr d' \<Longrightarrow>
   list_all (\<lambda>(uid, now, w). \<not> deletes_project w) ws \<Longrightarrow>
   take (length (projects d)) (map pj_created_by (projects d')) =
     map pj_created_by (projects d) \<and> length (projects d) \<le> length (projects d')"
proof (induction ws arbitrary: d)
  case Nil
  then show ?case by simp
next
  case (Cons x ws)
  obtain uid now w where x: "x = (uid, now, w)"
    by (cases x)
  with Cons.prems obtain d1 where step: "exec d uid now w = Inr d1"
    and rest: "exec_all d1 ws = Inr d'"
    by (auto split: sum.splits)
  from Cons.prems x have w: "\<not> deletes_project w"
    and ws: "list_all (\<lambda>(uid, now, w). \<not> deletes_project w) ws"
    by simp_all
  from exec_extends_project_creators [OF step w]
  have one: "take (length (projects d)) (map pj_created_by (projects d1)) =
      map pj_created_by (projects d)" and le1: "length (projects d) \<le> length (projects d1)"
    by simp_all
  from Cons.IH [OF rest ws]
  have more: "take (length (projects d1)) (map pj_created_by (projects d')) =
      map pj_created_by (projects d1)" and le2: "length (projects d1) \<le> length (projects d')"
    by simp_all
  have "take (length (projects d)) (map pj_created_by (projects d')) =
      take (length (projects d)) (take (length (projects d1)) (map pj_created_by (projects d')))"
    using le1 by (simp add: min_absorb1)
  with one more le1 le2 show ?case
    by simp
qed

lemma delete_project_removes_only:
  "exec d uid now (Delete_project k) = Inr d' \<Longrightarrow>
   projects d' = filter (\<lambda>r. \<not> (pj_id r = k \<and> pj_created_by r = uid)) (projects d)"
  by (simp add: delete_from_Inr cascade_keeps using_allows_simps)

lemma change_of_creator_denied:
  assumes "r \<in> set (projects d)" and "pj_id r = k" and "pj_created_by r = uid"
    and "pj_created_by (f r) \<noteq> uid"
  shows "exec d uid now (Update_project k f) = Inl PolicyDenied"
  using assms
  by (auto simp add: update_in_def Let_def list_ex_iff using_allows_simps check_allows_simps)

lemma scenario_constraints: "constraints_ok scenario_db"
  by (simp add: constraints_ok_def primary_keys_ok_def unique_ok_def foreign_keys_ok_def
      scenario_defs)

lemma scenario_tables:
  "projects scenario_db = [scenario_project]" "labels scenario_db = [scenario_label]"
  "images scenario_db = [scenario_image]" "annotations scenario_db = [scenario_annotation]"
  "project_members scenario_db = []"
  by (simp_all add: scenario_db_def)

lemma update_history_runs:
  "exec_all scenario_db update_history = Inr (scenario_db\<lparr>
     projects := [scenario_project\<lparr>pj_status := paused, pj_updated_at := 5\<rparr>, other_project],
     images := [scenario_image\<lparr>im_status := in_progress, im_updated_at := 8\<rparr>]\<rparr>)"
  by (simp add: update_history_def update_in_def insert_into_def Let_def using_allows_simps
      check_allows_simps commit_def primary_keys_ok_def unique_ok_def foreign_keys_ok_def
      in_own_project_def scenario_defs other_project_def)

lemma creator_deletes_project:
  "exec scenario_db 101 9 (Delete_project 10) =
     Inr (scenario_db\<lparr>projects := [], labels := [], images := [], annotations := []\<rparr>)"
  by (simp add: delete_from_def cascade_def Let_def using_allows_simps scenario_defs)

lemma foreign_keys_cascade: "foreign_keys_ok (cascade d)"
  by (auto simp add: foreign_keys_ok_def cascade_def Let_def list_all_iff)

lemma primary_keys_cascade: "primary_keys_ok d \<Longrightarrow> primary_keys_ok (cascade d)"
  by (simp add: primary_keys_ok_def cascade_def Let_def distinct_map_filter)

lemma unique_cascade: "unique_ok d \<Longrightarrow> unique_ok (cascade d)"
  by (simp add: unique_ok_def cascade_def Let_def distinct_map_filter)

lemma constraints_cascade:
  "primary_keys_ok d \<Longrightarrow> unique_ok d \<Longrightarrow> constraints_ok (cascade d)"
  by (simp add: constraints_ok_def foreign_keys_cascade primary_keys_cascade unique_cascade)

lemma keys_after_filter:
  "primary_keys_ok d \<Longrightarrow> primary_keys_ok (projects_update (filter P1) d)"
  "primary_keys_ok d \<Longrightarrow> primary_keys_ok (project_members_update (filter P2) d)"
  "primary_keys_ok d \<Longrightarrow> primary_keys_ok (labels_update (filter P3) d)"
  "primary_keys_ok d \<Longrightarrow> primary_keys_ok (images_update (filter P4) d)"
  "primary_keys_ok d \<Longrightarrow> primary_keys_ok (annotations_update (filter P5) d)"
  "unique_ok d \<Longrightarrow> unique_ok (projects_update (filter P1) d)"
  "unique_ok d \<Longrightarrow> unique_ok (project_members_update (filter P2) d)"
  "unique_ok d \<Longrightarrow> unique_ok (labels_update (filter P3) d)"
  "unique_ok d \<Longrightarrow> unique_ok (images_update (filter P4) d)"
  "unique_ok d \<Longrightarrow> unique_ok (annotations_update (filter P5) d)"
  by (simp_all add: primary_keys_ok_def unique_ok_def distinct_map_filter)

lemma exec_keeps_constraints:
  assumes "exec d uid now w = Inr d'" and "constraints_ok d"
  shows "constraints_ok d'"
proof -
  from assms(2) have pk: "primary_keys_ok d" and un: "unique_ok d"
    by (simp_all add: constraints_ok_def)
  show ?thesis
  proof (cases w)
    case (Sign_up i e m)
    with assms(1) show ?thesis
      by (auto dest: handle_new_user_Inr)
  qed (use assms(1) pk un in \<open>auto simp add: update_in_Inr insert_into_Inr delete_from_Inr
        constraints_cascade keys_after_filter\<close>)
qed

lemma empty_constraints: "constraints_ok empty_db"
  by (simp add: constraints_ok_def primary_keys_ok_def unique_ok_def foreign_keys_ok_def
      empty_db_def)

lemma reachable_constraints: "reachable d \<Longrightarrow> constraints_ok d"
  by (induction rule: reachable.induct) (auto simp add: empty_constraints exec_keeps_constraints)

lemma same_key_not_distinct:
  assumes "x \<in> set xs" and "y \<in> set xs" and "x \<noteq> y" and "h x = h y"
  shows "\<not> distinct (map h xs)"
proof
  assume "distinct (map h xs)"
  then have "inj_on h (set xs)"
    by (simp add: distinct_map)
  with assms show False
    by (auto dest: inj_onD)
qed

lemma insert_label_conflict:
  assumes "authorize d uid (Insert (Label new)) = ALLOW"
    and "l \<in> set (labels d)"
    and "lb_project_id l = lb_project_id new" and "lb_name l = lb_name new"
  shows "exec d uid now (Insert_label new) = Inl UniqueConstraintViolation"
proof -
  from assms(2-4) have "(lb_project_id new, lb_name new) \<in>
      (\<lambda>l. (lb_project_id l, lb_name l)) ` set (labels d)"
    by (intro image_eqI [where x = l]) simp_all
  then have "\<not> distinct (map (\<lambda>l. (lb_project_id l, lb_name l)) (labels d @ [new]))"
    by simp
  then have "\<not> unique_ok (labels_update (\<lambda>rs. rs @ [new]) d)"
    by (simp add: unique_ok_def)
  with assms(1) show ?thesis
    by (simp add: insert_into_def commit_def authorize_ALLOW)
qed

lemma update_label_conflict:
  assumes "primary_keys_ok d"
    and "r \<in> set (labels d)" and "lb_id r = k"
    and "authorize d uid (Update (Label r) (Label (f r))) = ALLOW"
    and "l \<in> set (labels d)" and "lb_id l \<noteq> k"
    and "lb_project_id l = lb_project_id (f r)" and "lb_name l = lb_name (f r)"
  shows "exec d uid now (Update_label k f) = Inl UniqueConstraintViolation"
proof -
  let ?hit = "\<lambda>r. lb_id r = k \<and> using_allows d uid UPDATE (Label r)"
  let ?g = "\<lambda>r. if ?hit r then f r else r"
  from assms(4) have use: "using_allows d uid UPDATE (Label r)"
    and chk: "check_allows d uid UPDATE (Label (f r))"
    by (simp_all add: authorize_ALLOW)
  from assms(1) have dist: "distinct (map lb_id (labels d))"
    by (simp add: primary_keys_ok_def)
  have only: "x = r" if "x \<in> set (labels d)" "lb_id x = k" for x
    using dist that assms(2,3) by (auto simp add: distinct_map dest: inj_onD)
  have no_denial: "\<not> list_ex (\<lambda>x. ?hit x \<and> \<not> check_allows d uid UPDATE (Label (f x))) (labels d)"
    using only chk by (auto simp add: list_ex_iff)
  let ?key = "\<lambda>x. (lb_project_id (?g x), lb_name (?g x))"
  have ne: "r \<noteq> l"
    using assms(3,6) by auto
  have eq: "?key r = ?key l"
    using assms(3,6,7,8) use by simp
  have "\<not> distinct (map ?key (labels d))"
    using same_key_not_distinct [of r "labels d" l ?key] assms(2,5) ne eq by simp
  then have "\<not> unique_ok (labels_update (map ?g) d)"
    by (simp add: unique_ok_def comp_def)
  with no_denial show ?thesis
    by (simp add: update_in_def Let_def commit_def)
qed

section \<open>Profiles of other users\<close>

lemma filter_map_unchanged:
  "(\<And>x. x \<in> set xs \<Longrightarrow> P (g x) = P x \<and> (P x \<longrightarrow> g x = x)) \<Longrightarrow>
   filter P (map g xs) = filter P xs"
  by (induction xs) auto

lemma exec_keeps_other_profiles:
  assumes "exec d uid now w = Inr d'" and "\<not> signs_up w"
  shows "filter (\<lambda>r. pf_id r \<noteq> uid) (profiles d') = filter (\<lambda>r. pf_id r \<noteq> uid) (profiles d)"
proof (cases w)
  case (Update_profile k f)
  let ?hit = "\<lambda>r. pf_id r = k \<and> using_allows d uid UPDATE (Profile r)"
  let ?new = "\<lambda>r. (f r)\<lparr>pf_updated_at := now\<rparr>"
  let ?g = "\<lambda>r. if ?hit r then ?new r else r"
  let ?P = "\<lambda>r. pf_id r \<noteq> uid"
  from assms(1) Update_profile
  have all: "\<forall>r \<in> set (profiles d). ?hit r \<longrightarrow> check_allows d uid UPDATE (Profile (?new r))"
    and d': "d' = profiles_update (map ?g) d"
    by (simp_all add: update_in_Inr)
  from d' have p': "profiles d' = map ?g (profiles d)"
    by simp
  show ?thesis
    unfolding p'
  proof (rule filter_map_unchanged)
    fix x assume x: "x \<in> set (profiles d)"
    show "?P (?g x) = ?P x \<and> (?P x \<longrightarrow> ?g x = x)"
    proof (cases "?hit x")
      case True
      with all x have "check_allows d uid UPDATE (Profile (?new x))"
        by blast
      then have "pf_id (?new x) = uid"
        by (simp add: check_allows_simps)
      moreover from True have "pf_id x = uid"
        by (simp add: using_allows_simps)
      ultimately show ?thesis
        using True by simp
    next
      case False
      then show ?thesis by auto
    qed
  qed
qed (use assms in \<open>auto simp add: update_in_Inr insert_into_Inr delete_from_Inr cascade_keeps\<close>)

lemma admin_update_of_other_profile:
  "exec scenario_db 104 9 (Update_profile 102 (\<lambda>r. r\<lparr>pf_role := admin\<rparr>)) = Inr scenario_db"
proof -
  have "profiles_update (map (\<lambda>r. if pf_id r = 102 \<and> pf_id r = 104
      then r\<lparr>pf_role := admin, pf_updated_at := 9\<rparr> else r)) scenario_db = scenario_db"
    by (simp add: scenario_db_def scenario_profile_def)
  then show ?thesis
    by (simp add: update_in_Inr using_allows_simps check_allows_simps scenario_constraints)
qed

section \<open>Annotations and the creators of their projects\<close>

lemma image_in_own_project_iff:
  "image_in_own_project d c k =
     (\<exists>i \<in> set (images d). \<exists>p \<in> set (projects d).
        pj_id p = im_project_id i \<and> im_id i = k \<and> pj_created_by p = c)"
  by (simp add: image_in_own_project_def list_ex_iff)

lemma in_own_project_iff:
  "in_own_project d c k = (\<exists>p \<in> set (projects d). pj_id p = k \<and> pj_created_by p = c)"
  by (simp add: in_own_project_def list_ex_iff)

lemma annotation_creator_inv_owned:
  "primary_keys_ok d \<Longrightarrow> annotation_creator_inv d = owned d"
  by (simp add: annotation_creator_inv_def owned_def list_all_iff owner_creator_simps)

lemma same_id:
  "distinct (map key xs) \<Longrightarrow> x \<in> set xs \<Longrightarrow> y \<in> set xs \<Longrightarrow> key x = key y \<Longrightarrow> x = y"
  by (auto simp add: distinct_map dest: inj_onD)

lemma owned_same_parents:
  assumes "owned d" and "projects d' = projects d" and "images d' = images d"
    and "\<forall>a \<in> set (annotations d'). a \<in> set (annotations d) \<or>
           image_in_own_project d (an_created_by a) (an_image_id a)"
  shows "owned d'"
  using assms by (auto simp add: owned_def image_in_own_project_iff)

lemma owned_more_parents:
  assumes "owned d" and "set (projects d) \<subseteq> set (projects d')"
    and "set (images d) \<subseteq> set (images d')" and "annotations d' = annotations d"
  shows "owned d'"
  unfolding owned_def image_in_own_project_iff
proof
  fix a assume "a \<in> set (annotations d')"
  with assms(1,4) obtain i p where "i \<in> set (images d)" "p \<in> set (projects d)"
    "pj_id p = im_project_id i \<and> im_id i = an_image_id a \<and> pj_created_by p = an_created_by a"
    by (auto simp add: owned_def image_in_own_project_iff)
  with assms(2,3) show "\<exists>i \<in> set (images d'). \<exists>p \<in> set (projects d').
      pj_id p = im_project_id i \<and> im_id i = an_image_id a \<and> pj_created_by p = an_created_by a"
    by blast
qed

lemma owned_fewer_rows:
  assumes "owned d" and pk: "primary_keys_ok d" and fk: "foreign_keys_ok d'"
    and "set (projects d') \<subseteq> set (projects d)" and "set (images d') \<subseteq> set (images d)"
    and "set (annotations d') \<subseteq> set (annotations d)"
  shows "owned d'"
  unfolding owned_def image_in_own_project_iff
proof
  fix a assume a: "a \<in> set (annotations d')"
  with assms(6) have "a \<in> set (annotations d)" by blast
  with assms(1) obtain i p where i: "i \<in> set (images d)" and p: "p \<in> set (projects d)"
    and link: "pj_id p = im_project_id i" "im_id i = an_image_id a"
      "pj_created_by p = an_created_by a"
    by (auto simp add: owned_def image_in_own_project_iff)
  from fk a obtain i' where i': "i' \<in> set (images d')" "im_id i' = an_image_id a"
    by (auto simp add: foreign_keys_ok_def list_all_iff)
  with assms(5) i link(2) pk have "i' = i"
    by (auto simp add: primary_keys_ok_def intro: same_id [of im_id "images d"])
  with i' have i_in: "i \<in> set (images d')" by simp
  with fk obtain p' where p': "p' \<in> set (projects d')" "pj_id p' = im_project_id i"
    by (auto simp add: foreign_keys_ok_def list_all_iff)
  with assms(4) p link(1) pk have "p' = p"
    by (auto simp add: primary_keys_ok_def intro: same_id [of pj_id "projects d"])
  with p' have "p \<in> set (projects d')" by simp
  with i_in link show "\<exists>i \<in> set (images d'). \<exists>p \<in> set (projects d').
      pj_id p = im_project_id i \<and> im_id i = an_image_id a \<and> pj_created_by p = an_created_by a"
    by blast
qed

lemma owned_update_image:
  assumes own: "owned d" and pk: "primary_keys_ok d" and ok': "constraints_ok d'"
    and d': "d' = images_update (map (\<lambda>r. if hit r then new r else r)) d"
    and hit: "\<And>r. hit r \<Longrightarrow> im_id r = k \<and> in_own_project d uid (im_project_id r)"
    and chk: "\<And>r. r \<in> set (images d) \<Longrightarrow> hit r \<Longrightarrow>
                in_own_project d uid (im_project_id (new r))"
  shows "owned d'"
  unfolding owned_def image_in_own_project_iff
proof
  let ?g = "\<lambda>r. if hit r then new r else r"
  fix a assume "a \<in> set (annotations d')"
  with d' have a: "a \<in> set (annotations d)" by simp
  with own obtain i p where i: "i \<in> set (images d)" and p: "p \<in> set (projects d)"
    and link: "pj_id p = im_project_id i" "im_id i = an_image_id a"
      "pj_created_by p = an_created_by a"
    by (auto simp add: owned_def image_in_own_project_iff)
  have imgs: "set (images d') = ?g ` set (images d)" and prjs: "projects d' = projects d"
    using d' by simp_all
  show "\<exists>i \<in> set (images d'). \<exists>p \<in> set (projects d').
      pj_id p = im_project_id i \<and> im_id i = an_image_id a \<and> pj_created_by p = an_created_by a"
  proof (cases "hit i")
    case False
    then have "i \<in> set (images d')"
      using i imgs by force
    with p link prjs show ?thesis by auto
  next
    case True
    with hit obtain p0 where p0: "p0 \<in> set (projects d)" "pj_id p0 = im_project_id i"
      "pj_created_by p0 = uid" and k: "im_id i = k"
      by (auto simp add: in_own_project_iff)
    with p link(1) pk have "p0 = p"
      by (auto simp add: primary_keys_ok_def intro: same_id [of pj_id "projects d"])
    with p0 link(3) have creator: "an_created_by a = uid" by simp
    from ok' a d' have "an_image_id a \<in> im_id ` set (images d')"
      by (auto simp add: constraints_ok_def foreign_keys_ok_def list_all_iff)
    then obtain j where j: "j \<in> set (images d)" "im_id (?g j) = an_image_id a"
      using imgs by auto
    have "hit j"
    proof (rule ccontr)
      assume "\<not> hit j"
      with j link(2) have "im_id j = im_id i" by simp
      with i j(1) pk have "j = i"
        by (auto simp add: primary_keys_ok_def intro: same_id [of im_id "images d"])
      with True \<open>\<not> hit j\<close> show False by simp
    qed
    with chk [OF j(1)] obtain p' where "p' \<in> set (projects d)"
      "pj_id p' = im_project_id (new j)" "pj_created_by p' = uid"
      by (auto simp add: in_own_project_iff)
    moreover from \<open>hit j\<close> j have "new j \<in> set (images d')" "im_id (new j) = an_image_id a"
      using imgs by force+
    ultimately show ?thesis
      using creator prjs by auto
  qed
qed

lemma owned_update_project:
  assumes own: "owned d" and pk: "primary_keys_ok d" and ok': "constraints_ok d'"
    and d': "d' = projects_update (map (\<lambda>r. if hit r then new r else r)) d"
    and hit: "\<And>r. hit r \<Longrightarrow> pj_id r = k \<and> pj_created_by r = uid"
    and chk: "\<And>r. r \<in> set (projects d) \<Longrightarrow> hit r \<Longrightarrow> pj_created_by (new r) = uid"
  shows "owned d'"
  unfolding owned_def image_in_own_project_iff
proof
  let ?g = "\<lambda>r. if hit r then new r else r"
  fix a assume "a \<in> set (annotations d')"
  with d' have a: "a \<in> set (annotations d)" by simp
  with own obtain i p where i: "i \<in> set (images d)" and p: "p \<in> set (projects d)"
    and link: "pj_id p = im_project_id i" "im_id i = an_image_id a"
      "pj_created_by p = an_created_by a"
    by (auto simp add: owned_def image_in_own_project_iff)
  have prjs: "set (projects d') = ?g ` set (projects d)" and imgs: "images d' = images d"
    using d' by simp_all
  show "\<exists>i \<in> set (images d'). \<exists>p \<in> set (projects d').
      pj_id p = im_project_id i \<and> im_id i = an_image_id a \<and> pj_created_by p = an_created_by a"
  proof (cases "hit p")
    case False
    then have "p \<in> set (projects d')"
      using p prjs by force
    with i link imgs show ?thesis by auto
  next
    case True
    with hit link(3) have creator: "an_created_by a = uid" and k: "pj_id p = k"
      by auto
    from ok' i imgs have "im_project_id i \<in> pj_id ` set (projects d')"
      by (auto simp add: constraints_ok_def foreign_keys_ok_def list_all_iff)
    then obtain q where q: "q \<in> set (projects d)" "pj_id (?g q) = im_project_id i"
      using prjs by auto
    have "hit q"
    proof (rule ccontr)
      assume "\<not> hit q"
      with q link(1) have "pj_id q = pj_id p" by simp
      with p q(1) pk have "q = p"
        by (auto simp add: primary_keys_ok_def intro: same_id [of pj_id "projects d"])
      with True \<open>\<not> hit q\<close> show False by simp
    qed
    with chk [OF q(1)] q have "new q \<in> set (projects d')" "pj_id (new q) = im_project_id i"
      "pj_created_by (new q) = uid"
      using prjs by force+
    with i link(2) creator imgs show ?thesis by auto
  qed
qed

lemma cascade_subsets:
  "set (images (cascade d)) \<subseteq> set (images d)"
  "set (annotations (cascade d)) \<subseteq> set (annotations d)"
  by (auto simp add: cascade_def Let_def)

lemma owned_delete:
  assumes "owned d" and "primary_keys_ok d"
    and "set (projects d1) \<subseteq> set (projects d)" and "set (images d1) \<subseteq> set (images d)"
    and "set (annotations d1) \<subseteq> set (annotations d)"
  shows "owned (cascade d1)"
proof (rule owned_fewer_rows [OF assms(1,2) foreign_keys_cascade])
  show "set (projects (cascade d1)) \<subseteq> set (projects d)"
    using assms(3) by (simp add: cascade_keeps)
  show "set (images (cascade d1)) \<subseteq> set (images d)"
    using assms(4) cascade_subsets(1) [of d1] by blast
  show "set (annotations (cascade d1)) \<subseteq> set (annotations d)"
    using assms(5) cascade_subsets(2) [of d1] by blast
qed

lemma exec_keeps_owned:
  assumes ex: "exec d uid now w = Inr d'" and ok: "constraints_ok d" and own: "owned d"
  shows "owned d'"
proof -
  from ok have pk: "primary_keys_ok d"
    by (simp add: constraints_ok_def)
  show ?thesis
  proof (cases w)
    case (Sign_up i e m)
    with ex obtain r where "d' = d\<lparr>profiles := profiles d @ [r]\<rparr>"
      by (auto dest: handle_new_user_Inr)
    with own show ?thesis
      by (intro owned_same_parents [OF own]) simp_all
  next
    case (Update_profile k f)
    with ex show ?thesis
      by (intro owned_same_parents [OF own]) (auto simp add: update_in_Inr)
  next
    case (Insert_project new)
    with ex show ?thesis
      by (intro owned_more_parents [OF own]) (auto simp add: insert_into_Inr)
  next
    case (Update_project k f)
    with ex have ok': "constraints_ok d'"
      and d': "d' = projects_update (map (\<lambda>r. if pj_id r = k \<and> pj_created_by r = uid
                  then (f r)\<lparr>pj_updated_at := now\<rparr> else r)) d"
      and chk: "\<And>r. r \<in> set (projects d) \<Longrightarrow> pj_id r = k \<and> pj_created_by r = uid \<Longrightarrow>
                  pj_created_by ((f r)\<lparr>pj_updated_at := now\<rparr>) = uid"
      by (auto simp add: update_in_Inr using_allows_simps check_allows_simps)
    show ?thesis
      by (rule owned_update_project [OF own pk ok' d', of k uid]) (use chk in auto)
  next
    case (Delete_project k)
    with ex show ?thesis
      by (auto simp add: delete_from_Inr intro!: owned_delete [OF own pk])
  next
    case (Insert_member new)
    with ex show ?thesis
      by (intro owned_same_parents [OF own]) (auto simp add: insert_into_Inr)
  next
    case (Update_member k f)
    with ex show ?thesis
      by (intro owned_same_parents [OF own]) (auto simp add: update_in_Inr)
  next
    case (Delete_member k)
    with ex show ?thesis
      by (auto simp add: delete_from_Inr intro!: owned_delete [OF own pk])
  next
    case (Insert_label new)
    with ex show ?thesis
      by (intro owned_same_parents [OF own]) (auto simp add: insert_into_Inr)
  next
    case (Update_label k f)
    with ex show ?thesis
      by (intro owned_same_parents [OF own]) (auto simp add: update_in_Inr)
  next
    case (Delete_label k)
    with ex show ?thesis
      by (auto simp add: delete_from_Inr intro!: owned_delete [OF own pk])
  next
    case (Insert_image new)
    with ex show ?thesis
      by (intro owned_more_parents [OF own]) (auto simp add: insert_into_Inr)
  next
    case (Update_image k f)
    with ex have ok': "constraints_ok d'"
      and d': "d' = images_update (map (\<lambda>r.
                  if im_id r = k \<and> in_own_project d uid (im_project_id r)
                  then (f r)\<lparr>im_updated_at := now\<rparr> else r)) d"
      and chk: "\<And>r. r \<in> set (images d) \<Longrightarrow>
                  im_id r = k \<and> in_own_project d uid (im_project_id r) \<Longrightarrow>
                  in_own_project d uid (im_project_id ((f r)\<lparr>im_updated_at := now\<rparr>))"
      by (auto simp add: update_in_Inr using_allows_simps check_allows_simps)
    show ?thesis
      by (rule owned_update_image [OF own pk ok' d', of k uid]) (use chk in auto)
  next
    case (Delete_image k)
    with ex show ?thesis
      by (auto simp add: delete_from_Inr intro!: owned_delete [OF own pk])
  next
    case (Insert_annotation new)
    with ex show ?thesis
      by (intro owned_same_parents [OF own])
        (auto simp add: insert_into_Inr check_allows_simps)
  next
    case (Update_annotation k f)
    with ex show ?thesis
      by (intro owned_same_parents [OF own])
        (auto simp add: update_in_Inr check_allows_simps split: if_splits)
  next
    case (Delete_annotation k)
    with ex show ?thesis
      by (auto simp add: delete_from_Inr intro!: owned_delete [OF own pk])
  qed
qed

lemma reachable_owned: "reachable d \<Longrightarrow> owned d"
proof (induction rule: reachable.induct)
  case reachable_empty
  show ?case by (simp add: owned_def empty_db_def)
next
  case (reachable_exec d uid now w d')
  then show ?case
    using exec_keeps_owned [of d uid now w d'] reachable_constraints [of d] by blast
qed

lemma reachable_exec_all:
  "reachable d \<Longrightarrow> exec_all d ws = Inr d' \<Longrightarrow> reachable d'"
proof (induction ws arbitrary: d)
  case Nil
  then show ?case by simp
next
  case (Cons x ws)
  obtain uid now w where x: "x = (uid, now, w)"
    by (cases x)
  with Cons.prems obtain d1 where "exec d uid now w = Inr d1" "exec_all d1 ws = Inr d'"
    by (auto split: sum.splits)
  with Cons.prems(1) Cons.IH [of d1] show ?case
    by (blast intro: reachable.reachable_exec)
qed

lemma creation_history_runs: "exec_all empty_db creation_history = Inr created_db"
  by (simp add: creation_history_def created_db_def empty_db_def handle_new_user_def
      insert_into_def check_allows_simps commit_def primary_keys_ok_def unique_ok_def
      foreign_keys_ok_def in_own_project_def image_in_own_project_def
      scenario_defs second_label_def)

lemma created_db_reachable: "reachable created_db"
  using reachable_exec_all [OF reachable_empty creation_history_runs] .

lemma created_db_labels: "labels created_db = [scenario_label, second_label]"
  by (simp add: created_db_def)

section \<open>Claims about the policy evaluator\<close>

text \<open>
  Claim C1, as the policies in force decide it. On an annotation, \<^verbatim>\<open>SELECT\<close> is allowed
  exactly to the creator of the project that owns the annotation's image, and
  \<^verbatim>\<open>UPDATE\<close> exactly when, besides, the updated row lies on an image of a project of the
  caller and names the caller as \<^verbatim>\<open>created_by\<close>. The global roles and the
  annotation's own creator play no part: whoever is not the creator of the owning
  project is denied both. The store is assumed to satisfy its primary keys.
\<close>

theorem annotation_select_update_owner_only:
  assumes "primary_keys_ok d"
  shows "(authorize d uid (Select (Annotation a)) = ALLOW) =
           (owner_creator d (Annotation a) = Some uid) \<and>
         (authorize d uid (Update (Annotation a) (Annotation a')) = ALLOW) =
           (owner_creator d (Annotation a) = Some uid \<and>
            owner_creator d (Annotation a') = Some uid \<and> an_created_by a' = uid) \<and>
         (owner_creator d (Annotation a) \<noteq> Some uid \<longrightarrow>
            authorize d uid (Select (Annotation a)) = DENY \<and>
            authorize d uid (Update (Annotation a) (Annotation a')) = DENY)"
  using assms
  by (auto simp add: authorize_ALLOW authorize_DENY using_allows_simps check_allows_simps
      owner_creator_simps)

theorem annotation_select_update_owner_only_witness:
  "primary_keys_ok scenario_db \<and>
   authorize scenario_db 101 (Select (Annotation scenario_annotation)) = ALLOW \<and>
   authorize scenario_db 101 (Update (Annotation scenario_annotation)
      (Annotation scenario_annotation)) = ALLOW \<and>
   authorize scenario_db 102 (Select (Annotation scenario_annotation)) = DENY \<and>
   authorize scenario_db 102 (Update (Annotation scenario_annotation)
      (Annotation scenario_annotation)) = DENY"
  using annotation_select_update_owner_only
      [OF scenario_primary_keys, of 101 scenario_annotation scenario_annotation]
    annotation_select_update_owner_only
      [OF scenario_primary_keys, of 102 scenario_annotation scenario_annotation]
  by (simp add: scenario_primary_keys scenario_owner scenario_fields)

text \<open>
  Claim C1 as the specification states it fails: in the concrete store user 103 is a
  reviewer and user 104 an admin, neither created the project, and both are denied
  \<^verbatim>\<open>SELECT\<close> and \<^verbatim>\<open>UPDATE\<close> (of the approval field) on the annotation. The policy
  \<^verbatim>\<open>Users can update own annotations\<close>, which named the two roles, is dropped by
  \<^verbatim>\<open>wild_haze\<close>.
\<close>

theorem reviewer_and_admin_denied_on_annotation:
  "has_role scenario_db 103 reviewer \<and> has_role scenario_db 104 admin \<and>
   authorize scenario_db 103 (Select (Annotation scenario_annotation)) = DENY \<and>
   authorize scenario_db 103 (Update (Annotation scenario_annotation)
      (Annotation (scenario_annotation\<lparr>an_is_approved := Some True\<rparr>))) = DENY \<and>
   authorize scenario_db 104 (Select (Annotation scenario_annotation)) = DENY \<and>
   authorize scenario_db 104 (Update (Annotation scenario_annotation)
      (Annotation (scenario_annotation\<lparr>an_is_approved := Some True\<rparr>))) = DENY"
  by (simp add: authorize_DENY using_allows_simps check_allows_simps has_role_def
      image_in_own_project_def scenario_defs)

text \<open>
  Claim C2, as the policies in force decide it. Inserting a membership row is allowed
  when the caller has the global role admin (the policy
  \<^verbatim>\<open>Admins can manage project members\<close> is never dropped), or when the row names the
  caller as \<^verbatim>\<open>user_id\<close> and a project the caller created; in no other case.
\<close>

theorem membership_insert_self_or_admin:
  assumes "primary_keys_ok d"
  shows "(authorize d uid (Insert (Member m)) = ALLOW) =
           (has_role d uid admin \<or>
            (owner_creator d (Member m) = Some uid \<and> pm_user_id m = uid))"
  using assms
  by (auto simp add: authorize_ALLOW check_allows_simps owner_creator_simps)

theorem membership_insert_self_or_admin_witness:
  "primary_keys_ok scenario_db \<and>
   authorize scenario_db 101 (Insert (Member (scenario_membership 50 101))) = ALLOW \<and>
   authorize scenario_db 101 (Insert (Member (scenario_membership 50 102))) \<noteq> ALLOW \<and>
   authorize scenario_db 102 (Insert (Member (scenario_membership 50 102))) \<noteq> ALLOW"
  using membership_insert_self_or_admin
      [OF scenario_primary_keys, of 101 "scenario_membership 50 101"]
    membership_insert_self_or_admin
      [OF scenario_primary_keys, of 101 "scenario_membership 50 102"]
    membership_insert_self_or_admin
      [OF scenario_primary_keys, of 102 "scenario_membership 50 102"]
  by (simp add: scenario_primary_keys scenario_member_owner scenario_roles)

text \<open>
  Claim C2 as the specification states it fails: user 104, an admin who did not create
  the project, may insert a membership row for user 102.
\<close>

theorem admin_inserts_membership_of_another_user:
  "has_role scenario_db 104 admin \<and> pj_created_by scenario_project \<noteq> 104 \<and>
   pm_project_id (scenario_membership 50 102) = pj_id scenario_project \<and>
   pm_user_id (scenario_membership 50 102) \<noteq> 104 \<and>
   authorize scenario_db 104 (Insert (Member (scenario_membership 50 102))) = ALLOW"
  by (simp add: authorize_ALLOW check_allows_simps has_role_def scenario_defs
      scenario_membership_def)

text \<open>
  Claim C3. Inserting an annotation is allowed exactly when the caller is the creator of
  the project that owns the annotation's image and the row names the caller as
  \<^verbatim>\<open>created_by\<close>; a row with another \<^verbatim>\<open>created_by\<close> is denied, whoever owns the project.
\<close>

theorem annotation_insert_owner_and_self:
  assumes "primary_keys_ok d"
  shows "(authorize d uid (Insert (Annotation a)) = ALLOW) =
           (owner_creator d (Annotation a) = Some uid \<and> an_created_by a = uid) \<and>
         (an_created_by a \<noteq> uid \<longrightarrow> authorize d uid (Insert (Annotation a)) = DENY)"
  using assms
  by (simp add: authorize_ALLOW authorize_DENY check_allows_simps owner_creator_simps)

theorem annotation_insert_owner_and_self_witness:
  "primary_keys_ok scenario_db \<and>
   authorize scenario_db 101 (Insert (Annotation scenario_annotation)) = ALLOW \<and>
   authorize scenario_db 101
     (Insert (Annotation (scenario_annotation\<lparr>an_created_by := 102\<rparr>))) = DENY"
  using annotation_insert_owner_and_self [OF scenario_primary_keys, of 101 scenario_annotation]
    annotation_insert_owner_and_self
      [OF scenario_primary_keys, of 101 "scenario_annotation\<lparr>an_created_by := 102\<rparr>"]
  by (simp add: scenario_primary_keys scenario_owner scenario_fields)

text \<open>
  Claim C4. On a project, \<^verbatim>\<open>SELECT\<close> and \<^verbatim>\<open>DELETE\<close> are allowed to its creator and denied
  to everybody else, whatever the profiles table says about global roles; \<^verbatim>\<open>UPDATE\<close> is
  allowed to the creator for an update that leaves \<^verbatim>\<open>created_by\<close> in place, and denied
  to everybody else for every update.
\<close>

theorem project_access_creator_only:
  "(authorize d uid (Select (Project p)) = ALLOW) = (uid = pj_created_by p) \<and>
   (authorize d uid (Delete (Project p)) = ALLOW) = (uid = pj_created_by p) \<and>
   (authorize d uid (Update (Project p) (Project p')) = ALLOW) =
     (uid = pj_created_by p \<and> pj_created_by p' = pj_created_by p) \<and>
   (authorize d uid (Select (Project p)) = DENY) = (uid \<noteq> pj_created_by p) \<and>
   (authorize d uid (Delete (Project p)) = DENY) = (uid \<noteq> pj_created_by p) \<and>
   (authorize d uid (Update (Project p) (Project p')) = DENY) =
     (uid \<noteq> pj_created_by p \<or> pj_created_by p' \<noteq> pj_created_by p)"
  by (auto simp add: authorize_ALLOW authorize_DENY using_allows_simps check_allows_simps)

theorem project_access_creator_only_witness:
  "authorize scenario_db 101 (Select (Project scenario_project)) = ALLOW \<and>
   authorize scenario_db 101 (Delete (Project scenario_project)) = ALLOW \<and>
   authorize scenario_db 101 (Update (Project scenario_project)
      (Project (scenario_project\<lparr>pj_status := paused\<rparr>))) = ALLOW \<and>
   authorize scenario_db 104 (Select (Project scenario_project)) = DENY \<and>
   authorize scenario_db 104 (Delete (Project scenario_project)) = DENY \<and>
   authorize scenario_db 104 (Update (Project scenario_project)
      (Project (scenario_project\<lparr>pj_status := paused\<rparr>))) = DENY \<and>
   has_role scenario_db 104 admin"
  using project_access_creator_only
      [of scenario_db 101 scenario_project "scenario_project\<lparr>pj_status := paused\<rparr>"]
    project_access_creator_only
      [of scenario_db 104 scenario_project "scenario_project\<lparr>pj_status := paused\<rparr>"]
  by (simp add: scenario_project_def scenario_roles)

text \<open>
  Claim C5. On a label, and in the same way on an image, each of \<^verbatim>\<open>SELECT\<close>, \<^verbatim>\<open>INSERT\<close>
  and \<^verbatim>\<open>DELETE\<close> is allowed exactly when the caller is the creator of the project the row
  refers to, one step up the ownership graph; \<^verbatim>\<open>UPDATE\<close> asks the same of the stored and
  of the updated row, which is the same project when the update leaves \<^verbatim>\<open>project_id\<close>
  in place.
\<close>

theorem label_image_access_creator_of_project:
  assumes "primary_keys_ok d"
  shows "(authorize d uid (Select (Label l)) = ALLOW) = (owner_creator d (Label l) = Some uid) \<and>
         (authorize d uid (Insert (Label l)) = ALLOW) = (owner_creator d (Label l) = Some uid) \<and>
         (authorize d uid (Delete (Label l)) = ALLOW) = (owner_creator d (Label l) = Some uid) \<and>
         (authorize d uid (Update (Label l) (Label l')) = ALLOW) =
           (owner_creator d (Label l) = Some uid \<and> owner_creator d (Label l') = Some uid) \<and>
         (lb_project_id l' = lb_project_id l \<longrightarrow>
           (authorize d uid (Update (Label l) (Label l')) = ALLOW) =
             (owner_creator d (Label l) = Some uid)) \<and>
         (authorize d uid (Select (Image i)) = ALLOW) = (owner_creator d (Image i) = Some uid) \<and>
         (authorize d uid (Insert (Image i)) = ALLOW) = (owner_creator d (Image i) = Some uid) \<and>
         (authorize d uid (Delete (Image i)) = ALLOW) = (owner_creator d (Image i) = Some uid) \<and>
         (authorize d uid (Update (Image i) (Image i')) = ALLOW) =
           (owner_creator d (Image i) = Some uid \<and> owner_creator d (Image i') = Some uid) \<and>
         (im_project_id i' = im_project_id i \<longrightarrow>
           (authorize d uid (Update (Image i) (Image i')) = ALLOW) =
             (owner_creator d (Image i) = Some uid))"
  using assms
  by (auto simp add: authorize_ALLOW using_allows_simps check_allows_simps owner_creator_simps)

theorem label_image_access_creator_of_project_witness:
  "primary_keys_ok scenario_db \<and>
   authorize scenario_db 101 (Select (Label scenario_label)) = ALLOW \<and>
   authorize scenario_db 102 (Select (Label scenario_label)) \<noteq> ALLOW \<and>
   authorize scenario_db 101 (Update (Label scenario_label) (Label scenario_label)) = ALLOW \<and>
   authorize scenario_db 101 (Update (Image scenario_image) (Image scenario_image)) = ALLOW \<and>
   authorize scenario_db 102 (Update (Image scenario_image) (Image scenario_image)) \<noteq> ALLOW"
  using label_image_access_creator_of_project
      [OF scenario_primary_keys, of 101 scenario_label scenario_label
        scenario_image scenario_image]
    label_image_access_creator_of_project
      [OF scenario_primary_keys, of 102 scenario_label scenario_label
        scenario_image scenario_image]
  by (simp add: scenario_primary_keys scenario_owner)

text \<open>
  Claim C6. A label, an image or an annotation whose owning project row is absent is
  denied every command, to every caller. More generally a command is denied whenever no
  policy of the row's table that applies to the command accepts the row: the policies
  only ever allow, and nothing is allowed without one.
\<close>

theorem dangling_owner_denied:
  "(primary_keys_ok d \<longrightarrow> owning_project d r = None \<longrightarrow>
    table_of r = T_labels \<or> table_of r = T_images \<or> table_of r = T_annotations \<longrightarrow>
      authorize d uid (Select r) = DENY \<and> authorize d uid (Insert r) = DENY \<and>
      authorize d uid (Delete r) = DENY \<and> authorize d uid (Update r r') = DENY \<and>
      authorize d uid (Update r' r) = DENY) \<and>
   ((\<forall>p \<in> set final_policies. pol_table p = table_of r \<longrightarrow> applies (pol_for p) SELECT \<longrightarrow>
       (\<forall>q. pol_using p = Some q \<longrightarrow> \<not> q d (visible final_policies d uid) uid r)) \<longrightarrow>
      authorize d uid (Select r) = DENY) \<and>
   ((\<forall>p \<in> set final_policies. pol_table p = table_of r \<longrightarrow> applies (pol_for p) DELETE \<longrightarrow>
       (\<forall>q. pol_using p = Some q \<longrightarrow> \<not> q d (visible final_policies d uid) uid r)) \<longrightarrow>
      authorize d uid (Delete r) = DENY) \<and>
   ((\<forall>p \<in> set final_policies. pol_table p = table_of r \<longrightarrow> applies (pol_for p) UPDATE \<longrightarrow>
       (\<forall>q. pol_using p = Some q \<longrightarrow> \<not> q d (visible final_policies d uid) uid r)) \<longrightarrow>
      authorize d uid (Update r r') = DENY) \<and>
   ((\<forall>p \<in> set final_policies. pol_table p = table_of r \<longrightarrow> applies (pol_for p) INSERT \<longrightarrow>
       (\<forall>q. pol_with_check p = Some q \<or> (pol_with_check p = None \<and> pol_using p = Some q) \<longrightarrow>
          \<not> q d (visible final_policies d uid) uid r)) \<longrightarrow>
      authorize d uid (Insert r) = DENY)"
proof -
  have dangling: "authorize d uid (Select r) = DENY \<and> authorize d uid (Insert r) = DENY \<and>
      authorize d uid (Delete r) = DENY \<and> authorize d uid (Update r r') = DENY \<and>
      authorize d uid (Update r' r) = DENY"
    if pk: "primary_keys_ok d" and none: "owning_project d r = None"
      and tab: "table_of r = T_labels \<or> table_of r = T_images \<or> table_of r = T_annotations"
  proof (cases r)
    case (Label l)
    with pk none show ?thesis
      by (simp add: authorize_DENY using_allows_simps check_allows_simps owner_creator_simps
          owner_creator_def)
  next
    case (Image i)
    with pk none show ?thesis
      by (simp add: authorize_DENY using_allows_simps check_allows_simps owner_creator_simps
          owner_creator_def)
  next
    case (Annotation a)
    with pk none show ?thesis
      by (simp add: authorize_DENY using_allows_simps check_allows_simps owner_creator_simps
          owner_creator_def del: owning_project.simps)
  qed (use tab in simp_all)
  have using_default: "\<not> using_allows d uid c r"
    if "\<forall>p \<in> set final_policies. pol_table p = table_of r \<longrightarrow> applies (pol_for p) c \<longrightarrow>
       (\<forall>q. pol_using p = Some q \<longrightarrow> \<not> q d (visible final_policies d uid) uid r)" for c
    using that
    by (auto simp add: using_allows_def using_ok_def list_ex_iff split: option.splits)
  have check_default: "\<not> check_allows d uid c r"
    if "\<forall>p \<in> set final_policies. pol_table p = table_of r \<longrightarrow> applies (pol_for p) c \<longrightarrow>
       (\<forall>q. pol_with_check p = Some q \<or> (pol_with_check p = None \<and> pol_using p = Some q) \<longrightarrow>
          \<not> q d (visible final_policies d uid) uid r)" for c
    using that
    by (auto simp add: check_allows_def check_ok_def list_ex_iff split: option.splits)
  show ?thesis
    using dangling using_default [of SELECT] using_default [of DELETE]
      using_default [of UPDATE] check_default [of INSERT]
    by (simp add: authorize_DENY)
qed

theorem dangling_owner_denied_witness:
  "primary_keys_ok scenario_db \<and>
   owning_project scenario_db (Label (scenario_label\<lparr>lb_project_id := 11\<rparr>)) = None \<and>
   authorize scenario_db 101 (Select (Label (scenario_label\<lparr>lb_project_id := 11\<rparr>))) = DENY \<and>
   authorize scenario_db 101 (Insert (Label (scenario_label\<lparr>lb_project_id := 11\<rparr>))) = DENY \<and>
   authorize scenario_db 101 (Delete (Label (scenario_label\<lparr>lb_project_id := 11\<rparr>))) = DENY \<and>
   authorize scenario_db 101 (Select (Profile (scenario_profile 102 annotator))) = DENY \<and>
   authorize scenario_db 101 (Insert (Profile (scenario_profile 102 annotator))) = DENY \<and>
   authorize scenario_db 101 (Delete (Profile (scenario_profile 102 annotator))) = DENY \<and>
   authorize scenario_db 101 (Update (Profile (scenario_profile 102 annotator))
      (Profile (scenario_profile 102 admin))) = DENY"
proof -
  let ?l = "Label (scenario_label\<lparr>lb_project_id := 11\<rparr>)"
  let ?p = "Profile (scenario_profile 102 annotator)"
  let ?p' = "Profile (scenario_profile 102 admin)"
  have none: "owning_project scenario_db ?l = None"
    by (simp add: project_by_id_def scenario_defs)
  have tab: "table_of ?l = T_labels \<or> table_of ?l = T_images \<or> table_of ?l = T_annotations"
    by simp
  have no_using: "\<forall>p \<in> set final_policies. pol_table p = table_of ?p \<longrightarrow>
      applies (pol_for p) c \<longrightarrow>
      (\<forall>q. pol_using p = Some q \<longrightarrow>
         \<not> q scenario_db (visible final_policies scenario_db 101) 101 ?p)" for c
    by (simp add: final_policies_eq policy_defs scenario_profile_def)
  have no_check: "\<forall>p \<in> set final_policies. pol_table p = table_of ?p \<longrightarrow>
      applies (pol_for p) INSERT \<longrightarrow>
      (\<forall>q. pol_with_check p = Some q \<or> (pol_with_check p = None \<and> pol_using p = Some q) \<longrightarrow>
         \<not> q scenario_db (visible final_policies scenario_db 101) 101 ?p)"
    by (simp add: final_policies_eq policy_defs)
  from dangling_owner_denied [of scenario_db ?l 101 ?l] scenario_primary_keys none tab
  have "authorize scenario_db 101 (Select ?l) = DENY \<and>
      authorize scenario_db 101 (Insert ?l) = DENY \<and>
      authorize scenario_db 101 (Delete ?l) = DENY"
    by blast
  moreover from dangling_owner_denied [of scenario_db ?p 101 ?p']
    no_using [of SELECT] no_using [of DELETE] no_using [of UPDATE] no_check
  have "authorize scenario_db 101 (Select ?p) = DENY \<and>
      authorize scenario_db 101 (Insert ?p) = DENY \<and>
      authorize scenario_db 101 (Delete ?p) = DENY \<and>
      authorize scenario_db 101 (Update ?p ?p') = DENY"
    by blast
  ultimately show ?thesis
    using scenario_primary_keys none by blast
qed

text \<open>
  Claim C9. A profile row may be read by the caller whose identity is the row's \<^verbatim>\<open>id\<close>
  and by nobody else; it may be updated by that caller, to a row with the same \<^verbatim>\<open>id\<close>,
  and by nobody else; no caller may insert or delete a profile row. The global role of
  the caller is not asked: an admin has no access to the profile, and so to the stored
  role, of another user. Accordingly no successful write of a caller, other than a
  sign-up, changes the profile rows of the other users.
\<close>

theorem profile_access_own_only:
  "(authorize d uid (Select (Profile r)) = ALLOW) = (pf_id r = uid) \<and>
   (authorize d uid (Update (Profile r) (Profile r')) = ALLOW) =
     (pf_id r = uid \<and> pf_id r' = uid) \<and>
   authorize d uid (Insert (Profile r)) = DENY \<and>
   authorize d uid (Delete (Profile r)) = DENY \<and>
   (exec d uid now w = Inr d' \<longrightarrow> \<not> signs_up w \<longrightarrow>
      filter (\<lambda>r. pf_id r \<noteq> uid) (profiles d') = filter (\<lambda>r. pf_id r \<noteq> uid) (profiles d))"
  using exec_keeps_other_profiles [of d uid now w d']
  by (auto simp add: authorize_ALLOW authorize_DENY using_allows_simps check_allows_simps)

theorem profile_access_own_only_witness:
  "authorize scenario_db 102 (Select (Profile (scenario_profile 102 annotator))) = ALLOW \<and>
   authorize scenario_db 102 (Update (Profile (scenario_profile 102 annotator))
      (Profile (scenario_profile 102 admin))) = ALLOW \<and>
   authorize scenario_db 104 (Select (Profile (scenario_profile 102 annotator))) \<noteq> ALLOW \<and>
   authorize scenario_db 104 (Update (Profile (scenario_profile 102 annotator))
      (Profile (scenario_profile 102 admin))) \<noteq> ALLOW \<and>
   has_role scenario_db 104 admin \<and>
   exec scenario_db 104 9 (Update_profile 102 (\<lambda>r. r\<lparr>pf_role := admin\<rparr>)) = Inr scenario_db \<and>
   \<not> signs_up (Update_profile 102 (\<lambda>r. r\<lparr>pf_role := admin\<rparr>)) \<and>
   filter (\<lambda>r. pf_id r \<noteq> 104) (profiles scenario_db) =
     filter (\<lambda>r. pf_id r \<noteq> 104) (profiles scenario_db)"
  using profile_access_own_only
      [where d = scenario_db and uid = 102 and r = "scenario_profile 102 annotator"
        and r' = "scenario_profile 102 admin"]
    profile_access_own_only
      [where d = scenario_db and uid = 104 and r = "scenario_profile 102 annotator"
        and r' = "scenario_profile 102 admin" and now = 9 and d' = scenario_db
        and w = "Update_profile 102 (\<lambda>r. r\<lparr>pf_role := admin\<rparr>)"]
    admin_update_of_other_profile
  by (simp add: scenario_profile_def scenario_roles)

section \<open>Claims about the stored state\<close>

text \<open>
  Claim C7. No write that the policies let through changes the creator of a project.
  Along every history of successful writes, by any callers, in which no project row is
  deleted, the project rows of the start keep their places and each keeps its
  \<^verbatim>\<open>created_by\<close> (rows created on the way come after them). A delete removes rows and
  changes none. In particular an \<^verbatim>\<open>UPDATE\<close> of a project by its creator that would name
  somebody else as creator fails with a policy error.
\<close>

theorem project_creator_immutable:
  "(exec_all d ws = Inr d' \<longrightarrow>
    list_all (\<lambda>(uid, now, w). \<not> deletes_project w) ws \<longrightarrow>
      take (length (projects d)) (map pj_created_by (projects d')) =
        map pj_created_by (projects d)) \<and>
   (exec d uid now (Delete_project k) = Inr d' \<longrightarrow>
      projects d' = filter (\<lambda>r. \<not> (pj_id r = k \<and> pj_created_by r = uid)) (projects d)) \<and>
   (r \<in> set (projects d) \<longrightarrow> pj_id r = k \<longrightarrow> pj_created_by r = uid \<longrightarrow>
    pj_created_by (f r) \<noteq> uid \<longrightarrow> exec d uid now (Update_project k f) = Inl PolicyDenied)"
  using exec_all_extends_project_creators [of d ws d'] delete_project_removes_only [of d uid now k d']
    change_of_creator_denied [of r d k uid f now]
  by blast

theorem project_creator_immutable_witness:
  "list_all (\<lambda>(uid, now, w). \<not> deletes_project w) update_history \<and>
   exec_all scenario_db update_history = Inr (scenario_db\<lparr>
     projects := [scenario_project\<lparr>pj_status := paused, pj_updated_at := 5\<rparr>, other_project],
     images := [scenario_image\<lparr>im_status := in_progress, im_updated_at := 8\<rparr>]\<rparr>) \<and>
   take (length (projects scenario_db)) (map pj_created_by (projects (scenario_db\<lparr>
     projects := [scenario_project\<lparr>pj_status := paused, pj_updated_at := 5\<rparr>, other_project],
     images := [scenario_image\<lparr>im_status := in_progress, im_updated_at := 8\<rparr>]\<rparr>))) = [101] \<and>
   exec scenario_db 101 9 (Update_project 10 (\<lambda>p. p\<lparr>pj_created_by := 102\<rparr>)) =
     Inl PolicyDenied \<and>
   exec scenario_db 101 9 (Delete_project 10) =
     Inr (scenario_db\<lparr>projects := [], labels := [], images := [], annotations := []\<rparr>) \<and>
   projects (scenario_db\<lparr>projects := [], labels := [], images := [], annotations := []\<rparr>) =
     filter (\<lambda>r. \<not> (pj_id r = 10 \<and> pj_created_by r = 101)) (projects scenario_db)"
proof -
  have all: "list_all (\<lambda>(uid, now, w). \<not> deletes_project w) update_history"
    by (simp add: update_history_def)
  have mem: "scenario_project \<in> set (projects scenario_db)"
    by (simp add: scenario_tables)
  have flds: "pj_id scenario_project = 10" "pj_created_by scenario_project = 101"
    "pj_created_by (scenario_project\<lparr>pj_created_by := 102\<rparr>) \<noteq> 101"
    by (simp_all add: scenario_project_def)
  have start: "map pj_created_by (projects scenario_db) = [101]"
    by (simp add: scenario_tables flds)
  note inst = project_creator_immutable [where d = scenario_db and ws = update_history
      and r = scenario_project and k = 10 and uid = 101 and now = 9
      and f = "\<lambda>p. p\<lparr>pj_created_by := 102\<rparr>"]
  from inst update_history_runs all start
  have "take (length (projects scenario_db)) (map pj_created_by (projects (scenario_db\<lparr>
     projects := [scenario_project\<lparr>pj_status := paused, pj_updated_at := 5\<rparr>, other_project],
     images := [scenario_image\<lparr>im_status := in_progress, im_updated_at := 8\<rparr>]\<rparr>))) = [101]"
    by metis
  moreover from inst mem flds
  have "exec scenario_db 101 9 (Update_project 10 (\<lambda>p. p\<lparr>pj_created_by := 102\<rparr>)) =
     Inl PolicyDenied"
    by blast
  moreover from project_creator_immutable [where d = scenario_db and uid = 101 and now = 9
      and k = 10] creator_deletes_project
  have "projects (scenario_db\<lparr>projects := [], labels := [], images := [],
      annotations := []\<rparr>) =
     filter (\<lambda>r. \<not> (pj_id r = 10 \<and> pj_created_by r = 101)) (projects scenario_db)"
    by blast
  ultimately show ?thesis
    using all update_history_runs creator_deletes_project by blast
qed

text \<open>
  Claim C8. In every state the store can reach, no two label rows of one project share
  a name. A write that would make a second such row fails with
  \<open>UniqueConstraintViolation\<close> when the policies let it through: an insert of a label
  whose project and name a stored label has, and an update that gives a label the
  project and name of another stored label. A failed write yields the error and no next
  state: the store stays as it was.
\<close>

theorem label_names_unique_per_project:
  "(reachable d \<longrightarrow> distinct (map (\<lambda>l. (lb_project_id l, lb_name l)) (labels d))) \<and>
   (authorize d uid (Insert (Label new)) = ALLOW \<longrightarrow> l \<in> set (labels d) \<longrightarrow>
    lb_project_id l = lb_project_id new \<longrightarrow> lb_name l = lb_name new \<longrightarrow>
      exec d uid now (Insert_label new) = Inl UniqueConstraintViolation) \<and>
   (reachable d \<longrightarrow> r \<in> set (labels d) \<longrightarrow> lb_id r = k \<longrightarrow>
    authorize d uid (Update (Label r) (Label (f r))) = ALLOW \<longrightarrow>
    l \<in> set (labels d) \<longrightarrow> lb_id l \<noteq> k \<longrightarrow>
    lb_project_id l = lb_project_id (f r) \<longrightarrow> lb_name l = lb_name (f r) \<longrightarrow>
      exec d uid now (Update_label k f) = Inl UniqueConstraintViolation)"
proof (intro conjI impI)
  assume "reachable d"
  then show "distinct (map (\<lambda>l. (lb_project_id l, lb_name l)) (labels d))"
    using reachable_constraints [of d] by (simp add: constraints_ok_def unique_ok_def)
next
  assume "authorize d uid (Insert (Label new)) = ALLOW" "l \<in> set (labels d)"
    "lb_project_id l = lb_project_id new" "lb_name l = lb_name new"
  then show "exec d uid now (Insert_label new) = Inl UniqueConstraintViolation"
    by (rule insert_label_conflict)
next
  assume "reachable d"
  then have pk: "primary_keys_ok d"
    using reachable_constraints [of d] by (simp add: constraints_ok_def)
  assume "r \<in> set (labels d)" "lb_id r = k"
    "authorize d uid (Update (Label r) (Label (f r))) = ALLOW"
    "l \<in> set (labels d)" "lb_id l \<noteq> k"
    "lb_project_id l = lb_project_id (f r)" "lb_name l = lb_name (f r)"
  with pk show "exec d uid now (Update_label k f) = Inl UniqueConstraintViolation"
    by (rule update_label_conflict)
qed

theorem label_names_unique_per_project_witness:
  "reachable created_db \<and>
   distinct (map (\<lambda>l. (lb_project_id l, lb_name l)) (labels created_db)) \<and>
   authorize created_db 101 (Insert (Label (scenario_label\<lparr>lb_id := 22\<rparr>))) = ALLOW \<and>
   exec created_db 101 9 (Insert_label (scenario_label\<lparr>lb_id := 22\<rparr>)) =
     Inl UniqueConstraintViolation \<and>
   authorize created_db 101
     (Update (Label second_label) (Label (second_label\<lparr>lb_name := ''l1''\<rparr>))) = ALLOW \<and>
   exec created_db 101 9 (Update_label 21 (\<lambda>l. l\<lparr>lb_name := ''l1''\<rparr>)) =
     Inl UniqueConstraintViolation"
proof -
  have ins: "authorize created_db 101 (Insert (Label (scenario_label\<lparr>lb_id := 22\<rparr>))) = ALLOW"
    by (simp add: authorize_ALLOW check_allows_simps in_own_project_def created_db_def
        scenario_defs)
  have upd: "authorize created_db 101
      (Update (Label second_label) (Label (second_label\<lparr>lb_name := ''l1''\<rparr>))) = ALLOW"
    by (simp add: authorize_ALLOW using_allows_simps check_allows_simps in_own_project_def
        created_db_def scenario_defs second_label_def)
  have rows: "scenario_label \<in> set (labels created_db)" "second_label \<in> set (labels created_db)"
    by (simp_all add: created_db_labels)
  have flds: "lb_project_id scenario_label = lb_project_id (scenario_label\<lparr>lb_id := 22\<rparr>)"
    "lb_name scenario_label = lb_name (scenario_label\<lparr>lb_id := 22\<rparr>)"
    "lb_id second_label = 21" "lb_id scenario_label \<noteq> 21"
    "lb_project_id scenario_label = lb_project_id (second_label\<lparr>lb_name := ''l1''\<rparr>)"
    "lb_name scenario_label = lb_name (second_label\<lparr>lb_name := ''l1''\<rparr>)"
    by (simp_all add: scenario_label_def second_label_def)
  note c8 = label_names_unique_per_project [where d = created_db and uid = 101 and new = "scenario_label\<lparr>lb_id := 22\<rparr>"
      and l = scenario_label and now = 9 and r = second_label and k = 21
      and f = "\<lambda>l. l\<lparr>lb_name := ''l1''\<rparr>"]
  have a: "distinct (map (\<lambda>l. (lb_project_id l, lb_name l)) (labels created_db))"
    using c8 created_db_reachable by blast
  have b: "exec created_db 101 9 (Insert_label (scenario_label\<lparr>lb_id := 22\<rparr>)) =
      Inl UniqueConstraintViolation"
    using c8 ins rows(1) flds(1,2) by blast
  have c: "exec created_db 101 9 (Update_label 21 (\<lambda>l. l\<lparr>lb_name := ''l1''\<rparr>)) =
      Inl UniqueConstraintViolation"
    using c8 created_db_reachable upd rows flds(3-6) by blast
  from created_db_reachable a ins b upd c show ?thesis
    by blast
qed

text \<open>
  Claim C10. In every state the store reaches from the empty store by writes under the
  policies in force, every annotation lies on an image of a project whose creator is
  the annotation's \<^verbatim>\<open>created_by\<close>. An annotation row that the policies let a caller
  insert has that property in the state it is checked in, and so has the updated row of
  every update of an annotation that they let through.
\<close>

theorem annotation_creator_is_project_creator:
  "(reachable d \<longrightarrow> annotation_creator_inv d) \<and>
   (primary_keys_ok d \<longrightarrow> authorize d uid (Insert (Annotation a)) = ALLOW \<longrightarrow>
      owner_creator d (Annotation a) = Some (an_created_by a)) \<and>
   (primary_keys_ok d \<longrightarrow> authorize d uid (Update (Annotation a) (Annotation a')) = ALLOW \<longrightarrow>
      owner_creator d (Annotation a') = Some (an_created_by a'))"
proof (intro conjI impI)
  assume "reachable d"
  then show "annotation_creator_inv d"
    using reachable_owned [of d] reachable_constraints [of d]
    by (simp add: annotation_creator_inv_owned constraints_ok_def)
next
  assume "primary_keys_ok d" "authorize d uid (Insert (Annotation a)) = ALLOW"
  then show "owner_creator d (Annotation a) = Some (an_created_by a)"
    by (auto simp add: authorize_ALLOW check_allows_simps owner_creator_simps)
next
  assume "primary_keys_ok d" "authorize d uid (Update (Annotation a) (Annotation a')) = ALLOW"
  then show "owner_creator d (Annotation a') = Some (an_created_by a')"
    by (auto simp add: authorize_ALLOW check_allows_simps owner_creator_simps)
qed

theorem annotation_creator_is_project_creator_witness:
  "reachable created_db \<and> annotation_creator_inv created_db \<and>
   primary_keys_ok created_db \<and>
   authorize created_db 101 (Insert (Annotation scenario_annotation)) = ALLOW \<and>
   owner_creator created_db (Annotation scenario_annotation) =
     Some (an_created_by scenario_annotation) \<and>
   authorize created_db 101 (Update (Annotation scenario_annotation)
     (Annotation (scenario_annotation\<lparr>an_is_approved := Some True\<rparr>))) = ALLOW \<and>
   owner_creator created_db (Annotation (scenario_annotation\<lparr>an_is_approved := Some True\<rparr>)) =
     Some (an_created_by (scenario_annotation\<lparr>an_is_approved := Some True\<rparr>))"
proof -
  have pk: "primary_keys_ok created_db"
    using reachable_constraints [OF created_db_reachable] by (simp add: constraints_ok_def)
  have ins: "authorize created_db 101
      (Insert (Annotation scenario_annotation)) = ALLOW"
    by (simp add: authorize_ALLOW check_allows_simps image_in_own_project_def created_db_def
        scenario_defs)
  have upd: "authorize created_db 101 (Update (Annotation scenario_annotation)
      (Annotation (scenario_annotation\<lparr>an_is_approved := Some True\<rparr>))) = ALLOW"
    by (simp add: authorize_ALLOW using_allows_simps check_allows_simps
        image_in_own_project_def created_db_def scenario_defs)
  note c10 = annotation_creator_is_project_creator [where d = created_db and uid = 101
      and a = scenario_annotation
      and a' = "scenario_annotation\<lparr>an_is_approved := Some True\<rparr>"]
  from c10 created_db_reachable pk ins upd show ?thesis
    by blast
qed

end
